theory Spec2Isabelle
  imports Complex_Main "HOL-Library.Log_Nat"
begin

section \<open>Numbers, time stamps and exceptions\<close>

text \<open>
  Finite Python floats are idealised as reals: rounding error, overflow and signed zeros are
  not modelled. The one exception is the profit and loss of a closed trade, whose second
  decimal is at stake: \<open>calculate_pnl\<close> is computed in doubles, modelled below. The
  prices of the trade state are floats or \<^verbatim>\<open>None\<close>; the cells of rows and frames, further
  down, may also be the null \<^verbatim>\<open>NaN\<close>. A time stamp is an instant counted in microseconds
  (the resolution of \<^verbatim>\<open>datetime\<close>); the time zone of a stamp is not modelled.
\<close>

type_synonym stamp = int

datatype py_exn =
    TypeError
  | KeyError string
  | ValueError
  | ZeroDivisionError
  | AttributeError string
  | IndexError

text \<open>Python truthiness of an optional float: \<^verbatim>\<open>None\<close> and \<^verbatim>\<open>0.0\<close> are falsy.\<close>

definition truthy :: "real option \<Rightarrow> bool" where
  "truthy v = (case v of None \<Rightarrow> False | Some x \<Rightarrow> x \<noteq> 0)"

text \<open>
  \<^verbatim>\<open>round(x, n)\<close>: the nearest multiple of \<open>10^-n\<close>, a tie going to the even one.
\<close>

definition round_half_even :: "real \<Rightarrow> int" where
  "round_half_even y =
     (let f = \<lfloor>y\<rfloor>; d = y - of_int f
      in if d < 1 / 2 then f else if 1 / 2 < d then f + 1 else if even f then f else f + 1)"

definition py_round :: "real \<Rightarrow> nat \<Rightarrow> real" where
  "py_round x n = of_int (round_half_even (x * 10 ^ n)) / 10 ^ n"

text \<open>\<^verbatim>\<open>int(x)\<close> on a quotient of integers: truncation towards zero.\<close>

definition trunc_div :: "int \<Rightarrow> int \<Rightarrow> int" where
  "trunc_div a b = (if 0 \<le> a then a div b else - ((- a) div b))"

subsection \<open>Doubles\<close>

text \<open>
  A double is a real of the form \<open>m \<times> 2^e\<close> with \<open>\<bar>m\<bar> < 2^53\<close> and \<open>e \<ge> -1074\<close>.
  \<open>expo x\<close> is the binary exponent of a real other than zero, the \<open>e\<close> with
  \<open>2^e \<le> \<bar>x\<bar> < 2^(e+1)\<close>, and \<open>rd x\<close> is the double nearest to \<open>x\<close>, a tie going to
  the even significand, as IEEE 754 rounds the result of every operation. Overflow to an
  infinity is not modelled.
\<close>

definition pow2 :: "int \<Rightarrow> real" where
  "pow2 e = (if 0 \<le> e then 2 ^ nat e else 1 / 2 ^ nat (- e))"

definition expo :: "real \<Rightarrow> int" where
  "expo x =
     (if 1 \<le> \<bar>x\<bar> then bitlen \<lfloor>\<bar>x\<bar>\<rfloor> - 1 else - bitlen (\<lceil>1 / \<bar>x\<bar>\<rceil> - 1))"

definition rd :: "real \<Rightarrow> real" where
  "rd x =
     (if x = 0 then 0
      else (let u = pow2 (max (expo x) (- 1022) - 52)
            in of_int (round_half_even (x / u)) * u))"

definition dbl_add :: "real \<Rightarrow> real \<Rightarrow> real" where
  "dbl_add a b = rd (a + b)"

definition dbl_sub :: "real \<Rightarrow> real \<Rightarrow> real" where
  "dbl_sub a b = rd (a - b)"

definition dbl_mul :: "real \<Rightarrow> real \<Rightarrow> real" where
  "dbl_mul a b = rd (a * b)"

text \<open>
  \<^verbatim>\<open>round(x, n)\<close> on a double: the decimal with \<open>n\<close> places nearest to the exact value of
  \<open>x\<close>, a tie going to the even digit, read back as a double.
\<close>

definition dbl_round :: "real \<Rightarrow> nat \<Rightarrow> real" where
  "dbl_round x n = rd (py_round x n)"

section \<open>TradeState (tradewin\_config.py)\<close>

record TradeState =
  stop_loss :: "real option"
  trade_direction :: "string option"
  last_sl_update_time :: "stamp option"
  last_exit_time :: "stamp option"
  last_exit_price :: "real option"
  trade_id :: "string option"
  strategy :: "string option"
  open_trade :: "bool option"
  entry_time :: "stamp option"
  target_price :: "real option"
  entry_price :: "real option"
  position :: "string option"
  date :: "stamp option"
  qty :: int
  trade_type :: "string option"
  checked_post_entry :: bool

definition TradeState_init :: TradeState where
  "TradeState_init =
     \<lparr>stop_loss = None, trade_direction = None, last_sl_update_time = None,
      last_exit_time = None, last_exit_price = None, trade_id = None, strategy = None,
      open_trade = None, entry_time = None, target_price = None, entry_price = None,
      position = None, date = None, qty = 0, trade_type = None, checked_post_entry = False\<rparr>"

definition reset :: "TradeState \<Rightarrow> TradeState" where
  "reset st =
     st\<lparr>trade_direction := None, position := None, stop_loss := Some 0, entry_price := Some 0,
        target_price := Some 0, entry_time := None, open_trade := Some False, strategy := None,
        trade_id := None, last_exit_price := None, last_exit_time := None,
        last_sl_update_time := None, date := None, checked_post_entry := False, qty := 0,
        trade_type := None\<rparr>"

section \<open>SLManager (tradewin\_sl\_manager.py)\<close>

text \<open>
  \<^verbatim>\<open>trade_date\<close> is \<open>Some t\<close> when it is a \<^verbatim>\<open>datetime\<close> and \<open>None\<close> for any other object.
\<close>

definition age_seconds :: "TradeState \<Rightarrow> stamp option \<Rightarrow> int" where
  "age_seconds st trade_date =
     (case entry_time st of
        None \<Rightarrow> 0
      | Some et \<Rightarrow> (case trade_date of None \<Rightarrow> 0 | Some td \<Rightarrow> trunc_div (td - et) 1000000))"

text \<open>
  The methods mutate the state and may raise afterwards, so each returns the state it leaves
  behind together with the exception raised, if any. An accepted update ends in
  \<^verbatim>\<open>TradeWinUtils().prepare_trade_data(...)\<close>; the constructor of \<^verbatim>\<open>TradeWinUtils\<close> has a
  required argument, so that call raises \<^verbatim>\<open>TypeError\<close> after the stop has been written.
\<close>

definition maybe_update_sl ::
  "TradeState \<Rightarrow> stamp option \<Rightarrow> real \<Rightarrow> real \<Rightarrow> TradeState \<times> py_exn option" where
  "maybe_update_sl st trade_date new_sl price =
     (let new_sl = py_round new_sl 2
      in case stop_loss st of
           None \<Rightarrow> (st, Some TypeError)
         | Some cur \<Rightarrow>
             if \<bar>new_sl - cur\<bar> < 0.01 then (st, None)
             else if position st = Some ''BUY'' \<and> new_sl \<le> cur then (st, None)
             else if position st = Some ''SELL'' \<and> cur \<le> new_sl then (st, None)
             else (st\<lparr>stop_loss := Some new_sl, last_sl_update_time := trade_date\<rparr>,
                   Some TypeError))"

definition handle_buy_sl ::
  "TradeState \<Rightarrow> stamp option \<Rightarrow> real \<Rightarrow> real \<Rightarrow> TradeState \<times> py_exn option" where
  "handle_buy_sl st trade_date price atr =
     (case entry_price st of
        None \<Rightarrow> (st, Some TypeError)
      | Some ep \<Rightarrow>
          (let move = price - ep;
               fallback_sl = price - (if 1800 < age_seconds st trade_date then min 50 atr else atr);
               new_sl = price - atr * 0.6
           in if atr \<le> move then
                (case stop_loss st of
                   None \<Rightarrow> (st, Some TypeError)
                 | Some cur \<Rightarrow>
                     (let candidate_sl =
                            (if cur < new_sl then Some new_sl
                             else if cur < fallback_sl then Some fallback_sl else None)
                      in case candidate_sl of
                           None \<Rightarrow> (st, None)
                         | Some c \<Rightarrow>
                             if c \<noteq> 0 then maybe_update_sl st trade_date c price
                             else (st, None)))
              else (st, None)))"

definition handle_sell_sl ::
  "TradeState \<Rightarrow> stamp option \<Rightarrow> real \<Rightarrow> real \<Rightarrow> TradeState \<times> py_exn option" where
  "handle_sell_sl st trade_date price atr =
     (case entry_price st of
        None \<Rightarrow> (st, Some TypeError)
      | Some ep \<Rightarrow>
          (let move = ep - price;
               fallback_sl = price + (if 1800 < age_seconds st trade_date then min 50 atr else atr);
               new_sl = price + atr * 0.6
           in if atr \<le> move then
                (case stop_loss st of
                   None \<Rightarrow> (st, Some TypeError)
                 | Some cur \<Rightarrow>
                     (let candidate_sl =
                            (if new_sl < cur then Some new_sl
                             else if fallback_sl < cur then Some fallback_sl else None)
                      in case candidate_sl of
                           None \<Rightarrow> (st, None)
                         | Some c \<Rightarrow>
                             if c \<noteq> 0 then maybe_update_sl st trade_date c price
                             else (st, None)))
              else (st, None)))"

definition check_and_update_sl ::
  "TradeState \<Rightarrow> stamp option \<Rightarrow> real \<Rightarrow> real \<Rightarrow> TradeState \<times> py_exn option" where
  "check_and_update_sl st trade_date current_price atr =
     (if age_seconds st trade_date < 120 then (st, None)
      else case target_price st of
             None \<Rightarrow> (st, Some TypeError)
           | Some tp \<Rightarrow>
               if \<bar>current_price - tp\<bar> \<le> 0.25 * atr then
                 maybe_update_sl st trade_date
                   (if position st = Some ''BUY'' then current_price - 30 else current_price + 30)
                   current_price
               else if position st = Some ''BUY'' then handle_buy_sl st trade_date current_price atr
               else if position st = Some ''SELL'' then handle_sell_sl st trade_date current_price atr
               else (st, None))"

text \<open>
  One monitoring tick hands the manager a time stamp, a price and an ATR. The states a trade
  goes through over a sequence of ticks, whether or not a call raised:
\<close>

type_synonym tick = "stamp option \<times> real \<times> real"

fun sl_states :: "TradeState \<Rightarrow> tick list \<Rightarrow> TradeState list" where
  "sl_states st [] = []"
| "sl_states st ((trade_date, price, atr) # ticks) =
     (let st' = fst (check_and_update_sl st trade_date price atr) in st' # sl_states st' ticks)"

text \<open>
  What one call may do to the stop of a trade: the position is kept, the stop stays set, and
  it does not move against the position.
\<close>

definition sl_step_ok :: "TradeState \<Rightarrow> TradeState \<Rightarrow> bool" where
  "sl_step_ok st st' =
     (position st' = position st \<and>
      (case (stop_loss st, stop_loss st') of
         (Some s, Some v) \<Rightarrow>
           (position st = Some ''BUY'' \<longrightarrow> s \<le> v) \<and> (position st = Some ''SELL'' \<longrightarrow> v \<le> s)
       | _ \<Rightarrow> False))"

section \<open>TradeExecutor (tradewin\_trade\_manager.py)\<close>

text \<open>
  The record written to the trade store by \<^verbatim>\<open>prepare_trade_data\<close> (tradewin\_util.py); the
  constant \<^verbatim>\<open>meta_data\<close> source tag and the configured symbol are left out.
\<close>

record trade_data =
  td_trade_id :: "string option"
  td_time :: stamp
  td_type :: "string option"
  td_price :: real
  td_sl :: real
  td_exited :: bool
  td_pnl :: real
  td_strategy :: "string option"
  td_notes :: string
  td_exitprice :: real
  td_exittime :: stamp
  td_lots :: int

definition prepare_trade_data ::
  "TradeState \<Rightarrow> stamp \<Rightarrow> real \<Rightarrow> real \<Rightarrow> bool \<Rightarrow> py_exn + trade_data" where
  "prepare_trade_data st now exit_price pnl exited =
     (case entry_price st of
        None \<Rightarrow> Inl TypeError
      | Some ep \<Rightarrow>
          (case stop_loss st of
             None \<Rightarrow> Inl TypeError
           | Some sl \<Rightarrow>
               Inr \<lparr>td_trade_id = trade_id st,
                    td_time = (case entry_time st of Some t \<Rightarrow> t | None \<Rightarrow> now),
                    td_type = position st,
                    td_price = py_round ep 2,
                    td_sl = py_round sl 2,
                    td_exited = exited,
                    td_pnl = py_round pnl 2,
                    td_strategy = strategy st,
                    td_notes = (if exited then ''Exited'' else ''Order placed''),
                    td_exitprice = py_round exit_price 2,
                    td_exittime = now,
                    td_lots = 1\<rparr>))"

record kite_order =
  transaction_type :: string
  quantity :: int
  trigger_price :: real

text \<open>
  The executor with the parts of its collaborators that it writes to: the rows recorded in
  the trade store and the orders sent to the broker. The two configuration values it reads
  are fields as well.
\<close>

record TradeExecutor =
  self_state :: TradeState
  self_atr :: real
  self_atr_history :: "real list"
  self_margins :: real
  self_lots :: int
  TRADE_QTY :: int
  PAPER_TRADING :: bool
  self_db :: "trade_data list"
  self_kite :: "kite_order list"

definition place_kite_order :: "TradeExecutor \<Rightarrow> string \<Rightarrow> py_exn + TradeExecutor" where
  "place_kite_order ex action =
     (case stop_loss (self_state ex) of
        None \<Rightarrow> Inl TypeError
      | Some sl \<Rightarrow>
          Inr (ex\<lparr>self_kite := self_kite ex @
                 [\<lparr>transaction_type = (if action = ''BUY'' then ''BUY'' else ''SELL''),
                   quantity = TRADE_QTY ex * self_lots ex,
                   trigger_price = py_round sl 1\<rparr>]\<rparr>))"

definition adjust_target_price :: "TradeExecutor \<Rightarrow> string \<Rightarrow> py_exn + TradeExecutor \<times> real" where
  "adjust_target_price ex action =
     (let atr = (if self_atr ex \<noteq> 0 then self_atr ex else 20);
          hist = self_atr_history ex @ [atr];
          median_atr = (if hist \<noteq> [] then sort hist ! (length hist div 2) else atr);
          multiplier = (if atr < median_atr then 1.8 else 2.5)
      in case entry_price (self_state ex) of
           None \<Rightarrow> Inl TypeError
         | Some ep \<Rightarrow>
             Inr (ex\<lparr>self_atr_history := hist\<rparr>,
                  if action = ''BUY'' then ep + multiplier * atr else ep - multiplier * atr))"

text \<open>
  \<^verbatim>\<open>_update_trade_state\<close>; the fresh identifier and the clock reading are arguments.
\<close>

definition update_trade_state ::
  "TradeExecutor \<Rightarrow> string \<Rightarrow> stamp \<Rightarrow> stamp option \<Rightarrow> string \<Rightarrow> real \<Rightarrow> real \<Rightarrow> string \<Rightarrow> int
     \<Rightarrow> py_exn + TradeExecutor" where
  "update_trade_state ex new_id now trade_date action price stoploss strat lots =
     (let st1 = (self_state ex)
            \<lparr>trade_id := Some new_id, entry_time := Some now, position := Some action,
             entry_price := Some (py_round price 2), stop_loss := Some (py_round stoploss 2),
             strategy := Some strat, open_trade := Some True, last_sl_update_time := None\<rparr>
      in case adjust_target_price (ex\<lparr>self_state := st1\<rparr>) action of
           Inl e \<Rightarrow> Inl e
         | Inr (ex2, tp) \<Rightarrow>
             Inr (ex2\<lparr>self_state := (self_state ex2)
                        \<lparr>target_price := Some tp, date := trade_date,
                         qty := TRADE_QTY ex2 * lots, trade_type := Some action\<rparr>,
                      self_lots := lots\<rparr>))"

text \<open>
  \<^verbatim>\<open>place_order\<close> returns the executor as the call leaves it, with the exception raised if
  any. The first four assignments come before the test of \<^verbatim>\<open>open_trade\<close>, as in the source.
\<close>

definition place_order ::
  "TradeExecutor \<Rightarrow> string \<Rightarrow> stamp \<Rightarrow> stamp option \<Rightarrow> string \<Rightarrow> real \<Rightarrow> real \<Rightarrow> string \<Rightarrow> int
     \<Rightarrow> TradeExecutor \<times> py_exn option" where
  "place_order ex new_id now trade_date action price stoploss strat lots =
     (let ex1 = ex\<lparr>self_state := (self_state ex)
                   \<lparr>trade_direction := Some action, entry_price := Some price,
                    stop_loss := Some stoploss, strategy := Some strat\<rparr>\<rparr>
      in if open_trade (self_state ex1) = Some True then (ex1, None)
         else
           (case update_trade_state ex1 new_id now trade_date action price stoploss strat lots of
              Inl e \<Rightarrow> (ex1, Some e)
            | Inr ex2 \<Rightarrow>
                (case prepare_trade_data (self_state ex2) now 0 0 False of
                   Inl e \<Rightarrow> (ex2, Some e)
                 | Inr rec \<Rightarrow>
                     (let ex3 = ex2\<lparr>self_db := self_db ex2 @ [rec]\<rparr>
                      in case (if \<not> PAPER_TRADING ex3 then place_kite_order ex3 action
                               else Inr ex3) of
                           Inl e \<Rightarrow> (ex3, Some e)
                         | Inr ex4 \<Rightarrow>
                             (ex4\<lparr>self_state := (self_state ex4)\<lparr>open_trade := Some True\<rparr>\<rparr>,
                              None)))))"

text \<open>
  \<^verbatim>\<open>_calculate_pnl\<close>, in doubles: every product, sum and difference is rounded as it is
  formed, in the order in which the source forms them; the decimal literals are the
  doubles nearest to them and the integer quantity is converted to a double. The entry and
  exit prices are doubles.
\<close>

definition calculate_pnl :: "TradeExecutor \<Rightarrow> real \<Rightarrow> py_exn + real" where
  "calculate_pnl ex exit_price =
     (case entry_price (self_state ex) of
        None \<Rightarrow> Inl TypeError
      | Some entry \<Rightarrow>
          (let q = rd (real_of_int (qty (self_state ex)));
               ttype = trade_type (self_state ex);
               direction = trade_direction (self_state ex);
               gross_pnl = (if direction = Some ''SELL'' then dbl_mul (dbl_sub entry exit_price) q
                            else dbl_mul (dbl_sub exit_price entry) q);
               turnover = dbl_mul (dbl_add entry exit_price) q;
               brokerage = dbl_mul (min 20 (dbl_mul (rd 0.0003) turnover)) 2;
               stt = (if ttype = Some ''SELL'' then dbl_mul (dbl_mul (rd 0.00025) exit_price) q
                      else 0);
               gst = dbl_mul (rd 0.18) brokerage;
               sebi = dbl_mul (rd 0.000001) turnover;
               stamp_duty = (if ttype = Some ''BUY'' then dbl_mul (dbl_mul (rd 0.00003) entry) q
                             else 0);
               total_charges =
                 dbl_add (dbl_add (dbl_add (dbl_add brokerage stt) gst) sebi) stamp_duty;
               net_pnl = dbl_sub gross_pnl total_charges
           in Inr (dbl_round net_pnl 2)))"

text \<open>
  The net profit and loss as the specification words it, evaluated exactly: the formula
  over the reals, rounded to two decimals.
\<close>

definition net_pnl_spec :: "real \<Rightarrow> real \<Rightarrow> int \<Rightarrow> string \<Rightarrow> string \<Rightarrow> real" where
  "net_pnl_spec entry exit_price q direction ttype =
     (let gross = (if direction = ''SELL'' then (entry - exit_price) * real_of_int q
                   else (exit_price - entry) * real_of_int q);
          brokerage = min 20 (0.0003 * (entry + exit_price) * real_of_int q) * 2
      in py_round
           (gross - brokerage
              - (if ttype = ''SELL'' then 0.00025 * exit_price * real_of_int q else 0)
              - 0.18 * brokerage
              - 0.000001 * (entry + exit_price) * real_of_int q
              - (if ttype = ''BUY'' then 0.00003 * entry * real_of_int q else 0)) 2)"

text \<open>
  The same words evaluated in doubles: turnover, then each cost from its formula, the
  costs summed in the order in which the specification lists them, the sum taken from the
  gross amount, and the difference rounded to two decimals.
\<close>

definition spec_turnover :: "real \<Rightarrow> real \<Rightarrow> int \<Rightarrow> real" where
  "spec_turnover entry exit_price q = dbl_mul (dbl_add entry exit_price) (rd (real_of_int q))"

definition spec_gross :: "real \<Rightarrow> real \<Rightarrow> int \<Rightarrow> string \<Rightarrow> real" where
  "spec_gross entry exit_price q direction =
     (if direction = ''SELL'' then dbl_mul (dbl_sub entry exit_price) (rd (real_of_int q))
      else dbl_mul (dbl_sub exit_price entry) (rd (real_of_int q)))"

definition spec_brokerage :: "real \<Rightarrow> real \<Rightarrow> int \<Rightarrow> real" where
  "spec_brokerage entry exit_price q =
     dbl_mul (min 20 (dbl_mul (rd 0.0003) (spec_turnover entry exit_price q))) 2"

definition spec_stt :: "real \<Rightarrow> int \<Rightarrow> string \<Rightarrow> real" where
  "spec_stt exit_price q ttype =
     (if ttype = ''SELL'' then dbl_mul (dbl_mul (rd 0.00025) exit_price) (rd (real_of_int q))
      else 0)"

definition spec_gst :: "real \<Rightarrow> real \<Rightarrow> int \<Rightarrow> real" where
  "spec_gst entry exit_price q = dbl_mul (rd 0.18) (spec_brokerage entry exit_price q)"

definition spec_fee :: "real \<Rightarrow> real \<Rightarrow> int \<Rightarrow> real" where
  "spec_fee entry exit_price q = dbl_mul (rd 0.000001) (spec_turnover entry exit_price q)"

definition spec_stamp :: "real \<Rightarrow> int \<Rightarrow> string \<Rightarrow> real" where
  "spec_stamp entry q ttype =
     (if ttype = ''BUY'' then dbl_mul (dbl_mul (rd 0.00003) entry) (rd (real_of_int q))
      else 0)"

definition net_pnl_double_spec :: "real \<Rightarrow> real \<Rightarrow> int \<Rightarrow> string \<Rightarrow> string \<Rightarrow> real" where
  "net_pnl_double_spec entry exit_price q direction ttype =
     dbl_round
       (dbl_sub (spec_gross entry exit_price q direction)
          (dbl_add
             (dbl_add
                (dbl_add
                   (dbl_add (spec_brokerage entry exit_price q) (spec_stt exit_price q ttype))
                   (spec_gst entry exit_price q))
                (spec_fee entry exit_price q))
             (spec_stamp entry q ttype))) 2"

subsection \<open>Concrete trades\<close>

definition long_trade :: TradeState where
  "long_trade =
     TradeState_init
       \<lparr>stop_loss := Some 21950, trade_direction := Some ''BUY'', trade_id := Some ''t-1'',
        strategy := Some ''ORB'', open_trade := Some True, entry_time := Some 0,
        target_price := Some 22125, entry_price := Some 22000, position := Some ''BUY'',
        qty := 25, trade_type := Some ''BUY''\<rparr>"

definition short_trade :: TradeState where
  "short_trade =
     TradeState_init
       \<lparr>stop_loss := Some 22050, trade_direction := Some ''SELL'', trade_id := Some ''t-2'',
        strategy := Some ''ORB'', open_trade := Some True, entry_time := Some 0,
        target_price := Some 21875, entry_price := Some 22000, position := Some ''SELL'',
        qty := 25, trade_type := Some ''SELL''\<rparr>"

definition long_ticks :: "tick list" where
  "long_ticks =
     [(Some 300000000, 22060, 50), (Some 600000000, 22040, 50), (Some 900000000, 22120, 50)]"

definition short_ticks :: "tick list" where
  "short_ticks =
     [(Some 300000000, 21940, 50), (Some 600000000, 21960, 50), (Some 900000000, 21880, 50)]"

definition executor_long :: TradeExecutor where
  "executor_long =
     \<lparr>self_state = long_trade, self_atr = 50, self_atr_history = [50], self_margins = 250000,
      self_lots = 1, TRADE_QTY = 25, PAPER_TRADING = True, self_db = [], self_kite = []\<rparr>"

text \<open>The same executor with the long trade entered at 22005.\<close>

definition executor_22005 :: TradeExecutor where
  "executor_22005 = executor_long\<lparr>self_state := long_trade\<lparr>entry_price := Some 22005\<rparr>\<rparr>"

section \<open>Rows and decisions\<close>

text \<open>
  A numeric cell of a pandas row or column: a float or the null \<^verbatim>\<open>NaN\<close>. Arithmetic with
  \<^verbatim>\<open>NaN\<close> gives \<^verbatim>\<open>NaN\<close> and every comparison with it is false. Infinities are not
  modelled.
\<close>

datatype fl = Num real | NaN

fun fl_add :: "fl \<Rightarrow> fl \<Rightarrow> fl" where
  "fl_add (Num a) (Num b) = Num (a + b)"
| "fl_add _ _ = NaN"

fun fl_sub :: "fl \<Rightarrow> fl \<Rightarrow> fl" where
  "fl_sub (Num a) (Num b) = Num (a - b)"
| "fl_sub _ _ = NaN"

fun fl_mul :: "fl \<Rightarrow> fl \<Rightarrow> fl" where
  "fl_mul (Num a) (Num b) = Num (a * b)"
| "fl_mul _ _ = NaN"

fun fl_abs :: "fl \<Rightarrow> fl" where
  "fl_abs (Num a) = Num \<bar>a\<bar>"
| "fl_abs NaN = NaN"

fun fl_lt :: "fl \<Rightarrow> fl \<Rightarrow> bool" where
  "fl_lt (Num a) (Num b) = (a < b)"
| "fl_lt _ _ = False"

fun fl_le :: "fl \<Rightarrow> fl \<Rightarrow> bool" where
  "fl_le (Num a) (Num b) = (a \<le> b)"
| "fl_le _ _ = False"

definition isna :: "fl \<Rightarrow> bool" where
  "isna x = (x = NaN)"

text \<open>The \<^verbatim>\<open>date\<close> cell of a row: a time stamp or the null \<^verbatim>\<open>NaT\<close>.\<close>

datatype tcell = Stamp stamp | NaT

text \<open>
  A row (a pandas Series taken from a frame): its index label, its \<^verbatim>\<open>date\<close> cell if it
  has one, and its numeric cells by column name. Reading a column that is not there raises
  \<^verbatim>\<open>KeyError\<close>. \<open>row_pyfloat\<close> tells whether the numeric cells are Python floats (a
  Series built from a dict) or numpy scalars: dividing by zero raises for the former and
  gives an infinity or \<^verbatim>\<open>NaN\<close> for the latter.
\<close>

record row =
  row_name :: stamp
  row_date :: "tcell option"
  row_cells :: "string \<rightharpoonup> fl"
  row_pyfloat :: bool

definition get :: "row \<Rightarrow> string \<Rightarrow> py_exn + fl" where
  "get r k = (case row_cells r k of None \<Rightarrow> Inl (KeyError k) | Some v \<Rightarrow> Inr v)"

definition get_date :: "row \<Rightarrow> py_exn + tcell" where
  "get_date r = (case row_date r of None \<Rightarrow> Inl (KeyError ''date'') | Some d \<Rightarrow> Inr d)"

text \<open>Sequencing of steps that may raise: the first exception ends the computation.\<close>

definition bind_exn :: "py_exn + 'a \<Rightarrow> ('a \<Rightarrow> py_exn + 'b) \<Rightarrow> py_exn + 'b" where
  "bind_exn m f = (case m of Inl e \<Rightarrow> Inl e | Inr x \<Rightarrow> f x)"

text \<open>Calendar day and time of day of a stamp, the latter in microseconds after midnight.\<close>

definition day_us :: int where
  "day_us = 86400000000"

definition date_of :: "stamp \<Rightarrow> int" where
  "date_of t = t div day_us"

definition time_of :: "stamp \<Rightarrow> int" where
  "time_of t = t mod day_us"

definition dt_time :: "int \<Rightarrow> int \<Rightarrow> int" where
  "dt_time h m = (h * 3600 + m * 60) * 1000000"

text \<open>\<^verbatim>\<open>row['date'].time()\<close>: \<^verbatim>\<open>NaT\<close> does not support \<^verbatim>\<open>time\<close>.\<close>

definition get_time :: "row \<Rightarrow> py_exn + int" where
  "get_time r =
     bind_exn (get_date r) (\<lambda>d. case d of NaT \<Rightarrow> Inl ValueError | Stamp t \<Rightarrow> Inr (time_of t))"

text \<open>
  The reason of a decision. The source formats a text; the constructors keep which text it
  is and the numbers it prints. \<open>NoReason\<close> is the default, the empty string.
\<close>

datatype reason =
    NoReason
  | WeakCandle fl
  | MissingEntryOrATR
  | MissingIndicators
  | ATRTooLow fl
  | RiskRewardTooLow fl fl
  | NoVWAPSignal
  | ExceptionReason py_exn
  | OutsideTradingWindow
  | ATRBelow10 fl
  | MissingORBLevels
  | NoORBConditions
  | VolumeTooLow real fl
  | WeakMomentum
  | WeakPostCooldownCandle
  | SameZoneReentry
  | NoPullback

text \<open>
  \<^verbatim>\<open>TradeDecision\<close> (tradewin\_config.py). Fields whose names are taken by \<open>TradeState\<close>
  or are wanted for variables carry the suffix \<open>_d\<close>.
\<close>

record TradeDecision =
  date_d :: "tcell option"
  signal :: "string option"
  entry_d :: "fl option"
  sl_d :: "fl option"
  target_d :: "fl option"
  valid :: bool
  strategy_d :: "string option"
  reason :: reason

text \<open>The decision with every field \<^verbatim>\<open>None\<close> that the evaluators return to reject a row.\<close>

definition rejection :: "bool \<Rightarrow> reason \<Rightarrow> TradeDecision" where
  "rejection ok why =
     \<lparr>date_d = None, signal = None, entry_d = None, sl_d = None, target_d = None,
      valid = ok, strategy_d = None, reason = why\<rparr>"

section \<open>VWAPStrategy (tradewin\_strategy.py)\<close>

record VWAPStrategy =
  dev :: real
  sl_mult :: real
  target_mult :: real
  rr_threshold :: real

text \<open>
  The test \<^verbatim>\<open>atr / entry < 0.0001\<close> on two floats that are not null. With numpy scalars a
  zero divisor gives an infinity with the sign of \<^verbatim>\<open>atr\<close>, or \<^verbatim>\<open>NaN\<close> for 0/0, so the test
  is true exactly when \<^verbatim>\<open>atr\<close> is negative.
\<close>

definition atr_ratio_low :: "bool \<Rightarrow> fl \<Rightarrow> fl \<Rightarrow> py_exn + bool" where
  "atr_ratio_low pyfloat atr entry =
     (case (atr, entry) of
        (Num a, Num e) \<Rightarrow>
          if e = 0 then (if pyfloat then Inl ZeroDivisionError else Inr (a < 0))
          else Inr (a / e < 0.0001)
      | _ \<Rightarrow> Inr False)"

text \<open>The two inner blocks of \<^verbatim>\<open>VWAPStrategy.evaluate\<close>, entered once a band is crossed.\<close>

definition vwap_long :: "VWAPStrategy \<Rightarrow> row \<Rightarrow> fl \<Rightarrow> py_exn + TradeDecision" where
  "vwap_long self r entry =
     bind_exn (get_date r) (\<lambda>dt.
     bind_exn (get r ''orb_sl'') (\<lambda>sl.
     bind_exn (get r ''orb_target'') (\<lambda>target.
       let ok = fl_le (fl_mul (Num (rr_threshold self)) (fl_sub entry sl)) (fl_sub target entry)
       in if fl_lt (fl_sub target entry) (fl_mul (Num (rr_threshold self)) (fl_sub entry sl))
          then Inr (rejection ok
                 (RiskRewardTooLow (fl_sub target entry)
                    (fl_mul (Num (rr_threshold self)) (fl_sub entry sl))))
          else Inr \<lparr>date_d = Some dt, signal = Some ''BUY'', entry_d = Some entry,
                    sl_d = Some sl, target_d = Some target, valid = ok,
                    strategy_d = Some ''VWAP_REV'', reason = NoReason\<rparr>)))"

definition vwap_short :: "VWAPStrategy \<Rightarrow> row \<Rightarrow> fl \<Rightarrow> py_exn + TradeDecision" where
  "vwap_short self r entry =
     bind_exn (get_date r) (\<lambda>dt.
     bind_exn (get r ''orb_sl'') (\<lambda>sl.
     bind_exn (get r ''orb_target'') (\<lambda>target.
       let ok = fl_lt (fl_sub target entry) (fl_mul (Num (rr_threshold self)) (fl_sub entry sl))
       in if fl_lt (fl_sub entry target) (fl_mul (Num (rr_threshold self)) (fl_sub sl entry))
          then Inr (rejection ok
                 (RiskRewardTooLow (fl_sub entry target)
                    (fl_mul (Num (rr_threshold self)) (fl_sub sl entry))))
          else Inr \<lparr>date_d = Some dt, signal = Some ''SELL'', entry_d = Some entry,
                    sl_d = Some sl, target_d = Some target, valid = ok,
                    strategy_d = Some ''VWAP_REV'', reason = NoReason\<rparr>)))"

text \<open>The body of the \<^verbatim>\<open>try\<close> block of \<^verbatim>\<open>VWAPStrategy.evaluate\<close>.\<close>

definition vwap_body :: "VWAPStrategy \<Rightarrow> row \<Rightarrow> py_exn + TradeDecision" where
  "vwap_body self r =
     bind_exn (get r ''close'') (\<lambda>entry.
     bind_exn (get r ''VWAP_REV'') (\<lambda>vwap.
     bind_exn (get r ''ATR'') (\<lambda>atr.
     bind_exn (get r ''EMA20'') (\<lambda>ema20.
     bind_exn (get r ''prev_close'') (\<lambda>prev_close.
     bind_exn (get r ''open'') (\<lambda>opn.
     bind_exn (get r ''high'') (\<lambda>high.
     bind_exn (get r ''low'') (\<lambda>low.
       let body = fl_abs (fl_sub entry opn);
           candle_range = fl_sub high low
       in if fl_lt candle_range (Num 5) \<or> fl_lt body (fl_mul (Num 0.25) candle_range)
          then Inr (rejection False (WeakCandle entry))
          else if isna entry \<or> isna atr then Inr (rejection False MissingEntryOrATR)
          else
            bind_exn (get r ''RSI14'') (\<lambda>rsi.
              if isna vwap \<or> isna atr \<or> isna rsi \<or> isna ema20 \<or> isna prev_close
              then Inr (rejection False MissingIndicators)
              else
                bind_exn (atr_ratio_low (row_pyfloat r) atr entry) (\<lambda>low_ratio.
                  if low_ratio \<or> fl_lt atr (Num 5) then Inr (rejection False (ATRTooLow atr))
                  else
                    (let threshold_above = fl_add vwap (fl_mul (Num (dev self)) entry);
                         threshold_below = fl_sub vwap (fl_mul (Num (dev self)) entry)
                     in if fl_lt threshold_above entry \<and> fl_le prev_close threshold_above
                           \<and> fl_lt ema20 entry
                        then vwap_long self r entry
                        else if fl_lt entry threshold_below \<and> fl_le threshold_below prev_close
                           \<and> fl_lt entry ema20
                        then vwap_short self r entry
                        else Inr (rejection False NoVWAPSignal))))))))))))"

text \<open>\<^verbatim>\<open>VWAPStrategy.evaluate\<close>: the body under \<^verbatim>\<open>except Exception\<close>.\<close>

definition vwap_evaluate :: "VWAPStrategy \<Rightarrow> row \<Rightarrow> TradeDecision" where
  "vwap_evaluate self r =
     (case vwap_body self r of
        Inl e \<Rightarrow> rejection False (ExceptionReason e)
      | Inr d \<Rightarrow> d)"

text \<open>
  Where the body stands when its checks are done: it has returned a rejection, or the bar
  has crossed the upper band with the trend and the long block is entered with the entry
  price, or it has crossed the lower band and the short block is entered. These are the
  statements of \<open>vwap_body\<close> before the blocks, with the block calls replaced by the
  record of which block is entered.
\<close>

datatype vwap_step = Rejected TradeDecision | LongCross fl | ShortCross fl

definition vwap_checks :: "VWAPStrategy \<Rightarrow> row \<Rightarrow> py_exn + vwap_step" where
  "vwap_checks self r =
     bind_exn (get r ''close'') (\<lambda>entry.
     bind_exn (get r ''VWAP_REV'') (\<lambda>vwap.
     bind_exn (get r ''ATR'') (\<lambda>atr.
     bind_exn (get r ''EMA20'') (\<lambda>ema20.
     bind_exn (get r ''prev_close'') (\<lambda>prev_close.
     bind_exn (get r ''open'') (\<lambda>opn.
     bind_exn (get r ''high'') (\<lambda>high.
     bind_exn (get r ''low'') (\<lambda>low.
       let body = fl_abs (fl_sub entry opn);
           candle_range = fl_sub high low
       in if fl_lt candle_range (Num 5) \<or> fl_lt body (fl_mul (Num 0.25) candle_range)
          then Inr (Rejected (rejection False (WeakCandle entry)))
          else if isna entry \<or> isna atr then Inr (Rejected (rejection False MissingEntryOrATR))
          else
            bind_exn (get r ''RSI14'') (\<lambda>rsi.
              if isna vwap \<or> isna atr \<or> isna rsi \<or> isna ema20 \<or> isna prev_close
              then Inr (Rejected (rejection False MissingIndicators))
              else
                bind_exn (atr_ratio_low (row_pyfloat r) atr entry) (\<lambda>low_ratio.
                  if low_ratio \<or> fl_lt atr (Num 5)
                  then Inr (Rejected (rejection False (ATRTooLow atr)))
                  else
                    (let threshold_above = fl_add vwap (fl_mul (Num (dev self)) entry);
                         threshold_below = fl_sub vwap (fl_mul (Num (dev self)) entry)
                     in if fl_lt threshold_above entry \<and> fl_le prev_close threshold_above
                           \<and> fl_lt ema20 entry
                        then Inr (LongCross entry)
                        else if fl_lt entry threshold_below \<and> fl_le threshold_below prev_close
                           \<and> fl_lt entry ema20
                        then Inr (ShortCross entry)
                        else Inr (Rejected (rejection False NoVWAPSignal)))))))))))))"

section \<open>ORBStrategy (tradewin\_strategy.py)\<close>

definition orb_body :: "row \<Rightarrow> py_exn + TradeDecision" where
  "orb_body r =
     bind_exn (get r ''close'') (\<lambda>close.
     bind_exn (get r ''open'') (\<lambda>opn.
     bind_exn (get r ''high'') (\<lambda>high.
     bind_exn (get r ''low'') (\<lambda>low.
     bind_exn (get_time r) (\<lambda>current_time.
       if \<not> (dt_time 9 30 \<le> current_time \<and> current_time \<le> dt_time 15 25)
       then Inr (rejection False OutsideTradingWindow)
       else if fl_lt (fl_sub high low) (Num 5)
              \<or> fl_lt (fl_abs (fl_sub close opn)) (fl_mul (Num 0.25) (fl_sub high low))
       then Inr (rejection False (WeakCandle close))
       else
         bind_exn (get r ''ATR'') (\<lambda>atr.
           if isna atr \<or> fl_lt atr (Num 10) then Inr (rejection False (ATRBelow10 atr))
           else
             bind_exn (get r ''close_prev_1'') (\<lambda>close_prev_1.
             bind_exn (get r ''open_prev_1'') (\<lambda>open_prev_1.
             bind_exn (get r ''orb_long_entry'') (\<lambda>long_entry.
             bind_exn (get r ''orb_short_entry'') (\<lambda>short_entry.
               let bullish = fl_lt open_prev_1 close_prev_1;
                   bearish = fl_lt close_prev_1 open_prev_1
               in if isna long_entry \<or> isna short_entry
                  then Inr (rejection False MissingORBLevels)
                  else if fl_le long_entry high \<and> bullish then
                    bind_exn (get_date r) (\<lambda>dt.
                    bind_exn (get r ''orb_sl'') (\<lambda>orb_sl.
                    bind_exn (get r ''orb_target'') (\<lambda>orb_target.
                      Inr \<lparr>date_d = Some dt, signal = Some ''BUY'', entry_d = Some close,
                           sl_d = Some (fl_sub close orb_sl),
                           target_d = Some (fl_add close orb_target), valid = True,
                           strategy_d = Some ''ORB'', reason = NoReason\<rparr>)))
                  else if fl_le low short_entry \<and> bearish then
                    bind_exn (get_date r) (\<lambda>dt.
                    bind_exn (get r ''orb_sl'') (\<lambda>orb_sl.
                    bind_exn (get r ''orb_target'') (\<lambda>orb_target.
                      Inr \<lparr>date_d = Some dt, signal = Some ''SELL'', entry_d = Some close,
                           sl_d = Some (fl_add close orb_sl),
                           target_d = Some (fl_sub close orb_target), valid = True,
                           strategy_d = Some ''ORB'', reason = NoReason\<rparr>)))
                  else Inr (rejection False NoORBConditions)))))))))))"

definition orb_evaluate :: "row \<Rightarrow> TradeDecision" where
  "orb_evaluate r =
     (case orb_body r of
        Inl e \<Rightarrow> rejection False (ExceptionReason e)
      | Inr d \<Rightarrow> d)"

text \<open>
  The risk/reward gate as the specification states it: reward at least the threshold times
  the risk, for a long and for a short.
\<close>

definition rr_gate_long :: "real \<Rightarrow> fl \<Rightarrow> fl \<Rightarrow> fl \<Rightarrow> bool" where
  "rr_gate_long rr entry sl target =
     fl_le (fl_mul (Num rr) (fl_sub entry sl)) (fl_sub target entry)"

definition rr_gate_short :: "real \<Rightarrow> fl \<Rightarrow> fl \<Rightarrow> fl \<Rightarrow> bool" where
  "rr_gate_short rr entry sl target =
     fl_le (fl_mul (Num rr) (fl_sub sl entry)) (fl_sub entry target)"

subsection \<open>Concrete rows\<close>

definition vwap_params :: VWAPStrategy where
  "vwap_params = \<lparr>dev = 0.001, sl_mult = 0.8, target_mult = 4, rr_threshold = 1.2\<rparr>"

text \<open>10:00 on day 20000.\<close>

definition ten_o_clock :: stamp where
  "ten_o_clock = 20000 * day_us + dt_time 10 0"

text \<open>
  A bar that closes above the upper band and above the long average, on a day for which no
  levels were assigned: \<^verbatim>\<open>orb_sl\<close> and \<^verbatim>\<open>orb_target\<close> are null.
\<close>

definition long_row_null_levels :: row where
  "long_row_null_levels =
     \<lparr>row_name = ten_o_clock, row_date = Some (Stamp ten_o_clock),
      row_cells = [''open'' \<mapsto> Num 100, ''high'' \<mapsto> Num 106, ''low'' \<mapsto> Num 99,
                   ''close'' \<mapsto> Num 105, ''VWAP_REV'' \<mapsto> Num 103, ''ATR'' \<mapsto> Num 10,
                   ''EMA20'' \<mapsto> Num 101, ''prev_close'' \<mapsto> Num 100, ''RSI14'' \<mapsto> Num 50,
                   ''orb_sl'' \<mapsto> NaN, ''orb_target'' \<mapsto> NaN],
      row_pyfloat = False\<rparr>"

text \<open>The same bar with levels: stop 100, target 112, and target 106.\<close>

definition long_row :: "real \<Rightarrow> row" where
  "long_row target =
     long_row_null_levels
       \<lparr>row_cells := (row_cells long_row_null_levels)
          (''orb_sl'' \<mapsto> Num 100, ''orb_target'' \<mapsto> Num target)\<rparr>"

text \<open>A bar that closes below the lower band and below the long average.\<close>

definition short_row :: "real \<Rightarrow> row" where
  "short_row target =
     \<lparr>row_name = ten_o_clock, row_date = Some (Stamp ten_o_clock),
      row_cells = [''open'' \<mapsto> Num 105, ''high'' \<mapsto> Num 106, ''low'' \<mapsto> Num 99,
                   ''close'' \<mapsto> Num 100, ''VWAP_REV'' \<mapsto> Num 102, ''ATR'' \<mapsto> Num 10,
                   ''EMA20'' \<mapsto> Num 104, ''prev_close'' \<mapsto> Num 105, ''RSI14'' \<mapsto> Num 50,
                   ''orb_sl'' \<mapsto> Num 105, ''orb_target'' \<mapsto> Num target],
      row_pyfloat = False\<rparr>"

text \<open>A row without a \<^verbatim>\<open>close\<close> column, and a row whose date is null.\<close>

definition row_without_close :: row where
  "row_without_close =
     \<lparr>row_name = ten_o_clock, row_date = Some (Stamp ten_o_clock),
      row_cells = [''open'' \<mapsto> Num 100], row_pyfloat = True\<rparr>"

definition row_without_time :: row where
  "row_without_time = long_row_null_levels\<lparr>row_date := Some NaT\<rparr>"

section \<open>Frames and the indicator engine (tradewin\_strategy.py)\<close>

text \<open>
  A frame of bars as it reaches the engine: the index, the \<^verbatim>\<open>date\<close> column and the five
  raw columns, which hold finite numbers, and the columns added later, by name, whose cells
  may be null. Every column has one cell for each row.
\<close>

record frame =
  df_index :: "stamp list"
  df_date :: "stamp list"
  df_open :: "real list"
  df_high :: "real list"
  df_low :: "real list"
  df_close :: "real list"
  df_volume :: "real list"
  df_cols :: "string \<rightharpoonup> fl list"

definition wf_frame :: "frame \<Rightarrow> bool" where
  "wf_frame df =
     (length (df_date df) = length (df_index df) \<and>
      length (df_open df) = length (df_index df) \<and>
      length (df_high df) = length (df_index df) \<and>
      length (df_low df) = length (df_index df) \<and>
      length (df_close df) = length (df_index df) \<and>
      length (df_volume df) = length (df_index df) \<and>
      (\<forall>c xs. df_cols df c = Some xs \<longrightarrow> length xs = length (df_index df)))"

text \<open>\<^verbatim>\<open>Series.shift(k)\<close>: the first \<open>k\<close> cells are null.\<close>

definition shift :: "nat \<Rightarrow> real list \<Rightarrow> fl list" where
  "shift k xs = replicate (min k (length xs)) NaN @ map Num (take (length xs - k) xs)"

text \<open>\<^verbatim>\<open>ewm(span=s, adjust=False).mean()\<close> with smoothing factor \<open>2 / (s + 1)\<close>.\<close>

fun ewm_from :: "real \<Rightarrow> real \<Rightarrow> real list \<Rightarrow> real list" where
  "ewm_from a prev [] = []"
| "ewm_from a prev (x # xs) = (let y = (1 - a) * prev + a * x in y # ewm_from a y xs)"

definition ewm_mean :: "nat \<Rightarrow> real list \<Rightarrow> real list" where
  "ewm_mean sp xs =
     (case xs of [] \<Rightarrow> [] | x # rest \<Rightarrow> x # ewm_from (2 / (real sp + 1)) x rest)"

text \<open>
  The mean of a window is null when the window is empty or holds a null.
  \<^verbatim>\<open>rolling(window=w).mean()\<close> needs \<open>w\<close> cells ending at the row itself.
\<close>

definition fl_mean :: "fl list \<Rightarrow> fl" where
  "fl_mean xs =
     (if xs = [] then NaN else fl_mul (foldr fl_add xs (Num 0)) (Num (1 / real (length xs))))"

definition rolling_mean :: "nat \<Rightarrow> fl list \<Rightarrow> fl list" where
  "rolling_mean w xs =
     map (\<lambda>i. if i + 1 < w then NaN else fl_mean (take w (drop (i + 1 - w) xs)))
       [0..<length xs]"

text \<open>
  A zero divisor gives an infinity or \<^verbatim>\<open>NaN\<close> in numpy; the model, which has no infinities,
  gives \<^verbatim>\<open>NaN\<close>. It arises in the \<^verbatim>\<open>RSI14\<close> column only, for a close of zero.
\<close>

fun fl_div :: "fl \<Rightarrow> fl \<Rightarrow> fl" where
  "fl_div (Num a) (Num b) = (if b = 0 then NaN else Num (a / b))"
| "fl_div _ _ = NaN"

definition pct_change :: "real list \<Rightarrow> fl list" where
  "pct_change xs =
     (case xs of
        [] \<Rightarrow> []
      | x # rest \<Rightarrow> NaN # map2 (\<lambda>prev cur. fl_sub (fl_div (Num cur) (Num prev)) (Num 1)) xs rest)"

definition add_technical_indicators :: "frame \<Rightarrow> frame" where
  "add_technical_indicators df =
     df\<lparr>df_cols := (df_cols df)
       (''open_prev_1'' \<mapsto> shift 1 (df_open df),
        ''close_prev_1'' \<mapsto> shift 1 (df_close df),
        ''open_prev_2'' \<mapsto> shift 2 (df_open df),
        ''close_prev_2'' \<mapsto> shift 2 (df_close df),
        ''EMA5'' \<mapsto> map Num (ewm_mean 5 (df_close df)),
        ''EMA20'' \<mapsto> map Num (ewm_mean 20 (df_close df)),
        ''RSI14'' \<mapsto>
           map (\<lambda>m. fl_sub (Num 100) (fl_div (Num 100) (fl_add (Num 1) m)))
             (rolling_mean 14 (map (\<lambda>c. fl_add c (Num 1)) (pct_change (df_close df)))),
        ''ATR'' \<mapsto> rolling_mean 14 (map2 (\<lambda>h l. Num (h - l)) (df_high df) (df_low df)),
        ''MACD'' \<mapsto>
           map2 (\<lambda>a b. Num (a - b)) (ewm_mean 12 (df_close df)) (ewm_mean 26 (df_close df)),
        ''VWAP_REV'' \<mapsto>
           map (\<lambda>(h, l, c). Num ((h + l + c) / 3))
             (zip (df_high df) (zip (df_low df) (df_close df))),
        ''prev_close'' \<mapsto> shift 1 (df_close df))\<rparr>"

section \<open>StrategyApplier (tradewin\_strategy.py)\<close>

definition in_orb_window :: "stamp \<Rightarrow> bool" where
  "in_orb_window t = (dt_time 9 15 \<le> time_of t \<and> time_of t \<le> dt_time 9 30)"

text \<open>The date, high and low of the rows of one calendar day, and of its opening range.\<close>

definition day_group :: "frame \<Rightarrow> int \<Rightarrow> (stamp \<times> real \<times> real) list" where
  "day_group df d =
     filter (\<lambda>(t, h, l). date_of t = d) (zip (df_date df) (zip (df_high df) (df_low df)))"

definition morning_range :: "(stamp \<times> real \<times> real) list \<Rightarrow> (stamp \<times> real \<times> real) list" where
  "morning_range grp = filter (\<lambda>(t, h, l). in_orb_window t) grp"

text \<open>\<^verbatim>\<open>Series.max()\<close> and \<^verbatim>\<open>Series.min()\<close>: null for an empty series.\<close>

definition series_max :: "real list \<Rightarrow> fl" where
  "series_max xs = (case xs of [] \<Rightarrow> NaN | x # rest \<Rightarrow> Num (foldr max rest x))"

definition series_min :: "real list \<Rightarrow> fl" where
  "series_min xs = (case xs of [] \<Rightarrow> NaN | x # rest \<Rightarrow> Num (foldr min rest x))"

definition morning_high :: "frame \<Rightarrow> int \<Rightarrow> fl" where
  "morning_high df d = series_max (map (\<lambda>(t, h, l). h) (morning_range (day_group df d)))"

definition morning_low :: "frame \<Rightarrow> int \<Rightarrow> fl" where
  "morning_low df d = series_min (map (\<lambda>(t, h, l). l) (morning_range (day_group df d)))"

text \<open>The test that skips a day: the span of its opening range is below 25.\<close>

definition narrow_morning :: "frame \<Rightarrow> int \<Rightarrow> bool" where
  "narrow_morning df d = fl_lt (fl_sub (morning_high df d) (morning_low df d)) (Num 25)"

definition choose_strategy :: "(stamp \<times> real \<times> real) list \<Rightarrow> bool \<Rightarrow> string \<Rightarrow> string" where
  "choose_strategy df_day adaptive_mode active_strategy =
     (if \<not> adaptive_mode then active_strategy
      else
        (let atr_morning = fl_mean (map (\<lambda>(t, h, l). Num (h - l)) (morning_range df_day))
         in if atr_morning \<noteq> Num 0 \<and> fl_lt (Num 15) atr_morning then ''ORB''
            else ''VWAP_REV''))"

definition orb_columns :: "string list" where
  "orb_columns = [''orb_long_entry'', ''orb_short_entry'', ''orb_sl'', ''orb_target'']"

text \<open>A level column as the copy of the frame starts with it: created null when absent.\<close>

definition init_col :: "frame \<Rightarrow> string \<Rightarrow> fl list" where
  "init_col df c =
     (case df_cols df c of None \<Rightarrow> replicate (length (df_index df)) NaN | Some xs \<Rightarrow> xs)"

text \<open>
  \<^verbatim>\<open>df.loc[mask, col] = vals\<close> with the mask of one calendar day: the rows of that day take
  their new value, the others keep the old one.
\<close>

definition assign_masked :: "int \<Rightarrow> stamp list \<Rightarrow> fl list \<Rightarrow> fl list \<Rightarrow> fl list" where
  "assign_masked d dates vals old =
     map (\<lambda>(t, v, x). if date_of t = d then v else x) (zip dates (zip vals old))"

text \<open>\<^verbatim>\<open>np.maximum(c, x)\<close> keeps a null; \<^verbatim>\<open>fillna(c)\<close> replaces it.\<close>

fun fl_maximum :: "real \<Rightarrow> fl \<Rightarrow> fl" where
  "fl_maximum c (Num x) = Num (max c x)"
| "fl_maximum c NaN = NaN"

fun fillna :: "real \<Rightarrow> fl \<Rightarrow> fl" where
  "fillna c (Num x) = Num x"
| "fillna c NaN = Num c"

text \<open>
  One round of the loop over the days of \<^verbatim>\<open>assign_strategy_levels\<close>. The strategy map is
  the caller's dictionary, so what was written to it stays when the round raises.
\<close>

definition assign_day ::
  "real \<Rightarrow> real \<Rightarrow> real \<Rightarrow> bool \<Rightarrow> string \<Rightarrow> int \<Rightarrow> frame \<Rightarrow> (int \<rightharpoonup> string)
     \<Rightarrow> (py_exn + frame) \<times> (int \<rightharpoonup> string)" where
  "assign_day entry_buffer sl_factor target_factor adaptive_mode active_strategy d df m =
     (if narrow_morning df d then (Inr df, m)
      else
        (let strat = choose_strategy (day_group df d) adaptive_mode active_strategy;
             m' = m(d \<mapsto> strat);
             n = length (df_index df)
         in if strat = ''ORB'' then
              (case df_cols df ''ATR'' of
                 None \<Rightarrow> (Inl (KeyError ''ATR''), m')
               | Some atrs \<Rightarrow>
                   (let orb_sl = map (\<lambda>a. fl_maximum 20 (fl_mul (fillna 20 a) (Num sl_factor))) atrs
                    in (Inr (df\<lparr>df_cols := (df_cols df)
                          (''orb_long_entry'' \<mapsto>
                             assign_masked d (df_date df)
                               (replicate n (fl_add (morning_high df d) (Num entry_buffer)))
                               (init_col df ''orb_long_entry''),
                           ''orb_short_entry'' \<mapsto>
                             assign_masked d (df_date df)
                               (replicate n (fl_sub (morning_low df d) (Num entry_buffer)))
                               (init_col df ''orb_short_entry''),
                           ''orb_sl'' \<mapsto>
                             assign_masked d (df_date df) orb_sl (init_col df ''orb_sl''),
                           ''orb_target'' \<mapsto>
                             assign_masked d (df_date df)
                               (map (\<lambda>s. fl_mul s (Num target_factor)) orb_sl)
                               (init_col df ''orb_target''))\<rparr>), m')))
            else
              (Inr (df\<lparr>df_cols := (df_cols df)
                 (''orb_long_entry'' \<mapsto>
                    assign_masked d (df_date df) (replicate n (Num 0))
                      (init_col df ''orb_long_entry''),
                  ''orb_short_entry'' \<mapsto>
                    assign_masked d (df_date df) (replicate n (Num 0))
                      (init_col df ''orb_short_entry''),
                  ''orb_sl'' \<mapsto>
                    assign_masked d (df_date df) (replicate n (Num 0)) (init_col df ''orb_sl''),
                  ''orb_target'' \<mapsto>
                    assign_masked d (df_date df) (replicate n (Num 0))
                      (init_col df ''orb_target''))\<rparr>), m')))"

fun assign_days ::
  "real \<Rightarrow> real \<Rightarrow> real \<Rightarrow> bool \<Rightarrow> string \<Rightarrow> int list \<Rightarrow> frame \<Rightarrow> (int \<rightharpoonup> string)
     \<Rightarrow> (py_exn + frame) \<times> (int \<rightharpoonup> string)" where
  "assign_days eb sf tf am act [] df m = (Inr df, m)"
| "assign_days eb sf tf am act (d # ds) df m =
     (case assign_day eb sf tf am act d df m of
        (Inl e, m') \<Rightarrow> (Inl e, m')
      | (Inr df', m') \<Rightarrow> assign_days eb sf tf am act ds df' m')"

text \<open>
  \<^verbatim>\<open>assign_strategy_levels\<close>. The loop visits the calendar days of the frame in ascending
  order, as \<^verbatim>\<open>groupby\<close> yields them. The helper column \<^verbatim>\<open>date_only\<close>, added before the loop
  and dropped after it, is not kept in the model.
\<close>

definition assign_strategy_levels ::
  "frame \<Rightarrow> real \<Rightarrow> real \<Rightarrow> real \<Rightarrow> bool \<Rightarrow> string \<Rightarrow> (int \<rightharpoonup> string)
     \<Rightarrow> (py_exn + frame) \<times> (int \<rightharpoonup> string)" where
  "assign_strategy_levels df entry_buffer sl_factor target_factor adaptive_mode active_strategy
       strategy_map =
     (let df1 = df\<lparr>df_cols := (df_cols df)
                  (''orb_long_entry'' \<mapsto> init_col df ''orb_long_entry'',
                   ''orb_short_entry'' \<mapsto> init_col df ''orb_short_entry'',
                   ''orb_sl'' \<mapsto> init_col df ''orb_sl'',
                   ''orb_target'' \<mapsto> init_col df ''orb_target'')\<rparr>;
          zeros = replicate (length (df_index df)) (Num 0)
      in case (if adaptive_mode \<or> active_strategy = ''ORB''
               then assign_days entry_buffer sl_factor target_factor adaptive_mode
                      active_strategy (sort (remdups (map date_of (df_date df1)))) df1
                      strategy_map
               else (Inr df1, strategy_map)) of
           (Inl e, m) \<Rightarrow> (Inl e, m)
         | (Inr df2, m) \<Rightarrow>
             (Inr (if active_strategy = ''VWAP_REV''
                   then df2\<lparr>df_cols := (df_cols df2)
                          (''orb_long_entry'' \<mapsto> zeros, ''orb_short_entry'' \<mapsto> zeros,
                           ''orb_sl'' \<mapsto> zeros, ''orb_target'' \<mapsto> zeros)\<rparr>
                   else df2), m))"

section \<open>MarketData (tradewin\_marketdata.py)\<close>

text \<open>
  The market-data object as \<^verbatim>\<open>decide_trade_from_row\<close> reads it: three configuration
  values, the shared trade state, the frame kept by \<^verbatim>\<open>prepare_indicators\<close> (\<open>None\<close>
  before the first call) and the strategy chosen per calendar day.
\<close>

record MarketData =
  md_strategy_mode :: string
  md_strategy_name :: string
  md_cooldown_minutes :: real
  md_state :: TradeState
  md_recent_df :: "frame option"
  md_daily_strategy_map :: "int \<rightharpoonup> string"

text \<open>\<^verbatim>\<open>str.upper()\<close> on ASCII letters.\<close>

definition upper :: "string \<Rightarrow> string" where
  "upper s =
     map (\<lambda>c. if 97 \<le> (of_char c :: nat) \<and> (of_char c :: nat) \<le> 122
              then char_of ((of_char c :: nat) - 32) else c) s"

text \<open>
  \<^verbatim>\<open>Index.get_loc\<close> on an index without repeated labels: the position of the label, or
  \<^verbatim>\<open>KeyError\<close>. \<^verbatim>\<open>iloc\<close> at a position outside the column raises \<^verbatim>\<open>IndexError\<close>.
\<close>

fun index_of :: "'a list \<Rightarrow> 'a \<Rightarrow> nat option" where
  "index_of [] x = None"
| "index_of (y # ys) x = (if y = x then Some 0 else map_option Suc (index_of ys x))"

definition iloc :: "'a list \<Rightarrow> nat \<Rightarrow> py_exn + 'a" where
  "iloc xs i = (if i < length xs then Inr (xs ! i) else Inl IndexError)"

definition is_momentum_confirmed :: "frame \<Rightarrow> nat \<Rightarrow> string option \<Rightarrow> py_exn + bool" where
  "is_momentum_confirmed df current_index direction =
     (if current_index < 3 then Inr False
      else
        (let prev = take 3 (drop (current_index - 3) (zip (df_open df) (df_close df)))
         in case direction of
              None \<Rightarrow> Inl (AttributeError ''upper'')
            | Some dir \<Rightarrow>
                if upper dir = ''SELL'' then Inr (list_all (\<lambda>(opn, cls). cls < opn) prev)
                else Inr (list_all (\<lambda>(opn, cls). opn < cls) prev)))"

text \<open>
  Seconds from an earlier exit to the date of the row; with the null date \<^verbatim>\<open>NaT\<close> the
  difference is null and every comparison with it is false.
\<close>

definition seconds_since :: "tcell \<Rightarrow> stamp \<Rightarrow> fl" where
  "seconds_since t earlier =
     (case t of NaT \<Rightarrow> NaN | Stamp now \<Rightarrow> Num (real_of_int (now - earlier) / 1000000))"

definition is_reentry_in_same_zone ::
  "MarketData \<Rightarrow> fl option \<Rightarrow> real option \<Rightarrow> stamp option \<Rightarrow> fl \<Rightarrow> tcell \<Rightarrow> py_exn + bool" where
  "is_reentry_in_same_zone md price exit_price exit_time atr current_time =
     (if \<not> truthy exit_price then Inr False
      else case (exit_price, exit_time) of
             (Some lep, Some lt) \<Rightarrow>
               (let time_diff = seconds_since current_time lt
                in case price of
                     None \<Rightarrow> Inl TypeError
                   | Some p \<Rightarrow>
                       Inr (fl_lt (fl_abs (fl_sub p (Num lep))) (fl_mul (Num 0.5) atr)
                            \<and> fl_lt time_diff (Num (md_cooldown_minutes md * 60))))
           | _ \<Rightarrow> Inr False)"

definition is_post_trade_candle_weak ::
  "MarketData \<Rightarrow> row \<Rightarrow> tcell \<Rightarrow> stamp \<Rightarrow> py_exn + bool" where
  "is_post_trade_candle_weak md r trade_time exit_time =
     (let age = seconds_since trade_time exit_time
      in bind_exn (get r ''close'') (\<lambda>cls.
         bind_exn (get r ''open'') (\<lambda>opn.
         bind_exn (get r ''high'') (\<lambda>high.
         bind_exn (get r ''low'') (\<lambda>low.
           Inr (fl_lt age (Num (md_cooldown_minutes md * 60)) \<and>
                (fl_lt (fl_sub high low) (Num 5) \<or>
                 fl_lt (fl_abs (fl_sub cls opn)) (fl_mul (Num 0.25) (fl_sub high low)))))))))"

definition has_price_moved_enough_after_pullback ::
  "fl option \<Rightarrow> real option \<Rightarrow> string option \<Rightarrow> fl \<Rightarrow> py_exn + bool" where
  "has_price_moved_enough_after_pullback price exit_price direction atr =
     (case exit_price of
        None \<Rightarrow> Inr False
      | Some lep \<Rightarrow>
          if lep = 0 then Inr False
          else if direction = Some ''SELL'' then
            (case price of
               None \<Rightarrow> Inl TypeError
             | Some p \<Rightarrow> Inr (fl_lt p (fl_sub (Num lep) (fl_mul (Num 0.5) atr))))
          else if direction = Some ''BUY'' then
            (case price of
               None \<Rightarrow> Inl TypeError
             | Some p \<Rightarrow> Inr (fl_lt (fl_add (Num lep) (fl_mul (Num 0.5) atr)) p))
          else Inr False)"

text \<open>
  The first step of \<^verbatim>\<open>decide_trade_from_row\<close>: pick the strategy and run its evaluator.
  \<^verbatim>\<open>VWAPStrategy(self)\<close> reads \<^verbatim>\<open>vwap_dev\<close>, \<^verbatim>\<open>sl_mult\<close>, \<^verbatim>\<open>target_mult\<close> and
  \<^verbatim>\<open>rr_threshold\<close> from the market-data object, which has no such attributes, so building
  the reversion evaluator here raises \<^verbatim>\<open>AttributeError\<close>.
\<close>

definition evaluate_row :: "MarketData \<Rightarrow> row \<Rightarrow> py_exn + TradeDecision" where
  "evaluate_row md r =
     bind_exn
       (if md_strategy_mode md = ''adaptive'' then
          bind_exn (get_date r) (\<lambda>d.
            case d of
              NaT \<Rightarrow> Inl ValueError
            | Stamp t \<Rightarrow>
                Inr (case md_daily_strategy_map md (date_of t) of
                       None \<Rightarrow> ''VWAP_REV''
                     | Some s \<Rightarrow> s))
        else Inr (md_strategy_name md))
       (\<lambda>strat. if strat = ''VWAP_REV'' then Inl (AttributeError ''vwap_dev'')
                else Inr (orb_evaluate r))"

text \<open>
  The guards applied to a valid decision, in the order of the source. Time zones are not
  modelled, so the normalisation of naive stamps leaves the stamps as they are.
\<close>

definition apply_filters ::
  "MarketData \<Rightarrow> row \<Rightarrow> TradeDecision \<Rightarrow> py_exn + TradeDecision" where
  "apply_filters md r result =
     (case md_recent_df md of
        None \<Rightarrow> Inl (AttributeError ''index'')
      | Some parent_df \<Rightarrow>
          (case index_of (df_index parent_df) (row_name r) of
             None \<Rightarrow> Inl (KeyError ''index'')
           | Some current_index \<Rightarrow>
               bind_exn (iloc (df_volume parent_df) current_index) (\<lambda>volume.
               bind_exn (iloc (rolling_mean 14 (map Num (df_volume parent_df))) current_index)
                 (\<lambda>avg_vol.
               let exit_time = last_exit_time (md_state md);
                   exit_price = last_exit_price (md_state md)
               in bind_exn (get r ''ATR'') (\<lambda>atr.
                  bind_exn (get_date r) (\<lambda>row_date.
                    if isna avg_vol \<or> fl_lt (Num volume) (fl_mul (Num 1.2) avg_vol)
                    then Inr (result\<lparr>valid := False, reason := VolumeTooLow volume avg_vol\<rparr>)
                    else
                      bind_exn (is_momentum_confirmed parent_df current_index (signal result))
                        (\<lambda>momentum.
                      if \<not> momentum
                      then Inr (result\<lparr>valid := False, reason := WeakMomentum\<rparr>)
                      else
                        bind_exn
                          (case exit_time of
                             None \<Rightarrow> Inr False
                           | Some lt \<Rightarrow> is_post_trade_candle_weak md r row_date lt)
                          (\<lambda>weak.
                        if weak
                        then Inr (result\<lparr>valid := False, reason := WeakPostCooldownCandle\<rparr>)
                        else
                          bind_exn
                            (is_reentry_in_same_zone md (entry_d result) exit_price exit_time
                               atr row_date)
                            (\<lambda>same_zone.
                          if same_zone
                          then Inr (result\<lparr>valid := False, reason := SameZoneReentry\<rparr>)
                          else if truthy exit_price then
                            bind_exn
                              (has_price_moved_enough_after_pullback (entry_d result)
                                 exit_price (signal result) atr)
                              (\<lambda>moved.
                            if \<not> moved
                            then Inr (result\<lparr>valid := False, reason := NoPullback\<rparr>)
                            else Inr result)
                          else Inr result)))))))))"

definition decide_trade_from_row :: "MarketData \<Rightarrow> row \<Rightarrow> py_exn + TradeDecision" where
  "decide_trade_from_row md r =
     bind_exn (evaluate_row md r) (\<lambda>result.
       if \<not> valid result then Inr result else apply_filters md r result)"

text \<open>
  The trailing average as the specification words it: the mean volume of the 14 bars
  strictly before the bar at position \<open>i\<close>.
\<close>

definition preceding_avg_spec :: "real list \<Rightarrow> nat \<Rightarrow> fl" where
  "preceding_avg_spec vols i =
     (if i < 14 then NaN else fl_mean (map Num (take 14 (drop (i - 14) vols))))"

subsection \<open>Concrete frames, rows and market data\<close>

text \<open>
  Fifteen five-minute bars of day 20000 from 09:15 on, all bullish; the first has a volume
  of 10000, the next thirteen of 100 and the last, at 10:25, of 130.
\<close>

definition vol_stamps :: "stamp list" where
  "vol_stamps =
       [20000 * day_us + dt_time 9 15, 20000 * day_us + dt_time 9 20,
        20000 * day_us + dt_time 9 25, 20000 * day_us + dt_time 9 30,
        20000 * day_us + dt_time 9 35, 20000 * day_us + dt_time 9 40,
        20000 * day_us + dt_time 9 45, 20000 * day_us + dt_time 9 50,
        20000 * day_us + dt_time 9 55, 20000 * day_us + dt_time 10 0,
        20000 * day_us + dt_time 10 5, 20000 * day_us + dt_time 10 10,
        20000 * day_us + dt_time 10 15, 20000 * day_us + dt_time 10 20,
        20000 * day_us + dt_time 10 25]"

definition vol_frame :: frame where
  "vol_frame =
     \<lparr>df_index = vol_stamps, df_date = vol_stamps,
      df_open = replicate 15 100, df_high = replicate 15 106, df_low = replicate 15 99,
      df_close = replicate 15 105,
      df_volume = [10000, 100, 100, 100, 100, 100, 100, 100, 100, 100, 100, 100, 100, 100, 130],
      df_cols = Map.empty\<rparr>"

text \<open>The bar of 10:25 with breakout levels: a long signal at 105 with ATR 10.\<close>

definition orb_row :: row where
  "orb_row =
     \<lparr>row_name = 20000 * day_us + dt_time 10 25,
      row_date = Some (Stamp (20000 * day_us + dt_time 10 25)),
      row_cells = [''open'' \<mapsto> Num 100, ''high'' \<mapsto> Num 106, ''low'' \<mapsto> Num 99,
                   ''close'' \<mapsto> Num 105, ''ATR'' \<mapsto> Num 10, ''close_prev_1'' \<mapsto> Num 105,
                   ''open_prev_1'' \<mapsto> Num 100, ''orb_long_entry'' \<mapsto> Num 104,
                   ''orb_short_entry'' \<mapsto> Num 95, ''orb_sl'' \<mapsto> Num 20,
                   ''orb_target'' \<mapsto> Num 80],
      row_pyfloat = False\<rparr>"

definition orb_decision :: TradeDecision where
  "orb_decision =
     \<lparr>date_d = Some (Stamp (20000 * day_us + dt_time 10 25)), signal = Some ''BUY'',
      entry_d = Some (Num 105), sl_d = Some (Num 85), target_d = Some (Num 185), valid = True,
      strategy_d = Some ''ORB'', reason = NoReason\<rparr>"

text \<open>Market data set to the breakout strategy, with no earlier exit.\<close>

definition md_orb :: MarketData where
  "md_orb =
     \<lparr>md_strategy_mode = ''fixed'', md_strategy_name = ''ORB'', md_cooldown_minutes = 5,
      md_state = TradeState_init, md_recent_df = Some vol_frame,
      md_daily_strategy_map = Map.empty\<rparr>"

text \<open>The same after a trade that was closed at 100 at 09:15.\<close>

definition md_after_exit :: MarketData where
  "md_after_exit =
     md_orb\<lparr>md_state := TradeState_init
       \<lparr>last_exit_price := Some 100, last_exit_time := Some (20000 * day_us + dt_time 9 15)\<rparr>\<rparr>"

text \<open>
  Two days of three bars each, at 09:15, 09:20 and 10:00. The opening range of day 20000
  spans 12 points, that of day 20001 spans 45; the ATR column is null but for the last bar.
\<close>

definition two_day_frame :: frame where
  "two_day_frame =
     \<lparr>df_index = [20000 * day_us + dt_time 9 15, 20000 * day_us + dt_time 9 20,
                  20000 * day_us + dt_time 10 0, 20001 * day_us + dt_time 9 15,
                  20001 * day_us + dt_time 9 20, 20001 * day_us + dt_time 10 0],
      df_date = [20000 * day_us + dt_time 9 15, 20000 * day_us + dt_time 9 20,
                 20000 * day_us + dt_time 10 0, 20001 * day_us + dt_time 9 15,
                 20001 * day_us + dt_time 9 20, 20001 * day_us + dt_time 10 0],
      df_open = [22002, 22005, 22010, 22005, 22030, 22040],
      df_high = [22010, 22012, 22050, 22040, 22045, 22060],
      df_low = [22000, 22003, 22005, 22000, 22010, 22030],
      df_close = [22005, 22010, 22040, 22030, 22040, 22050],
      df_volume = [100, 100, 100, 100, 100, 100],
      df_cols = [''ATR'' \<mapsto> [NaN, NaN, NaN, NaN, NaN, Num 30]]\<rparr>"

text \<open>The same fifteen bars with a volume of 100 each, and market data holding them.\<close>

definition flat_frame :: frame where
  "flat_frame =
     vol_frame\<lparr>df_volume :=
       [100, 100, 100, 100, 100, 100, 100, 100, 100, 100, 100, 100, 100, 100, 100]\<rparr>"

definition md_flat :: MarketData where
  "md_flat = md_orb\<lparr>md_recent_df := Some flat_frame\<rparr>"

section \<open>Rounding\<close>

lemma round_half_even_close: "\<bar>of_int (round_half_even y) - y\<bar> \<le> 1 / 2"
  unfolding round_half_even_def Let_def by (auto; linarith)

lemma py_round_close: "\<bar>py_round x 2 - x\<bar> \<le> 1 / 200"
proof -
  have "\<bar>of_int (round_half_even (x * 100)) - x * 100\<bar> \<le> 1 / 2"
    by (rule round_half_even_close)
  then show ?thesis
    unfolding py_round_def by (simp add: field_simps abs_le_iff)
qed

section \<open>The trailing stop never regresses\<close>

lemma maybe_update_sl_cases:
  assumes "stop_loss st = Some s"
  shows "maybe_update_sl st td c p = (st, None) \<or>
         (maybe_update_sl st td c p =
            (st\<lparr>stop_loss := Some (py_round c 2), last_sl_update_time := td\<rparr>, Some TypeError)
          \<and> 0.01 \<le> \<bar>py_round c 2 - s\<bar>
          \<and> (position st = Some ''BUY'' \<longrightarrow> s < py_round c 2)
          \<and> (position st = Some ''SELL'' \<longrightarrow> py_round c 2 < s))"
  using assms unfolding maybe_update_sl_def Let_def by auto

text \<open>
  A candidate that is accepted lies strictly beyond the current stop even before it is
  rounded: rounding moves it by at most 0.005, and a change below 0.01 is dropped.
\<close>

lemma maybe_update_sl_raw:
  assumes "stop_loss st = Some s" "fst (maybe_update_sl st td c p) \<noteq> st"
  shows "(position st = Some ''BUY'' \<longrightarrow> s < c) \<and> (position st = Some ''SELL'' \<longrightarrow> c < s)"
proof -
  from maybe_update_sl_cases[OF assms(1), of td c p] assms(2)
  have a: "0.01 \<le> \<bar>py_round c 2 - s\<bar>"
    and b: "position st = Some ''BUY'' \<longrightarrow> s < py_round c 2"
    and c: "position st = Some ''SELL'' \<longrightarrow> py_round c 2 < s"
    by auto
  from py_round_close[of c] a b c show ?thesis
    by (auto simp: abs_le_iff abs_if split: if_splits)
qed

lemma sl_step_ok_refl: "stop_loss st = Some s \<Longrightarrow> sl_step_ok st st"
  by (simp add: sl_step_ok_def)

lemma maybe_update_sl_ok:
  assumes "stop_loss st = Some s"
  shows "sl_step_ok st (fst (maybe_update_sl st td c p))"
  using maybe_update_sl_cases[OF assms, of td c p] assms
  by (auto simp: sl_step_ok_def)

lemma handle_buy_sl_ok:
  assumes "stop_loss st = Some s"
  shows "sl_step_ok st (fst (handle_buy_sl st td p a))"
  using assms maybe_update_sl_ok[OF assms] sl_step_ok_refl[OF assms]
  by (simp add: handle_buy_sl_def Let_def split: option.splits)

lemma handle_sell_sl_ok:
  assumes "stop_loss st = Some s"
  shows "sl_step_ok st (fst (handle_sell_sl st td p a))"
  using assms maybe_update_sl_ok[OF assms] sl_step_ok_refl[OF assms]
  by (simp add: handle_sell_sl_def Let_def split: option.splits)

lemma check_and_update_sl_ok:
  assumes "stop_loss st = Some s"
  shows "sl_step_ok st (fst (check_and_update_sl st td p a))"
  using assms maybe_update_sl_ok[OF assms] sl_step_ok_refl[OF assms]
    handle_buy_sl_ok[OF assms] handle_sell_sl_ok[OF assms]
  by (simp add: check_and_update_sl_def split: option.splits)

lemma sl_states_values:
  "stop_loss st = Some s \<Longrightarrow>
   \<exists>vs. map stop_loss (sl_states st ticks) = map Some vs \<and>
        (position st = Some ''BUY'' \<longrightarrow> sorted_wrt (\<le>) (s # vs)) \<and>
        (position st = Some ''SELL'' \<longrightarrow> sorted_wrt (\<ge>) (s # vs))"
proof (induction ticks arbitrary: st s)
  case Nil
  then show ?case by simp
next
  case (Cons t ticks)
  obtain td p a where t: "t = (td, p, a)" by (cases t)
  define st' where "st' = fst (check_and_update_sl st td p a)"
  have ok: "sl_step_ok st st'"
    unfolding st'_def by (rule check_and_update_sl_ok[OF Cons.prems])
  then obtain v where v: "stop_loss st' = Some v" and pos: "position st' = position st"
    and buy: "position st = Some ''BUY'' \<Longrightarrow> s \<le> v"
    and sell: "position st = Some ''SELL'' \<Longrightarrow> v \<le> s"
    using Cons.prems by (auto simp: sl_step_ok_def split: option.splits)
  from Cons.IH[OF v] obtain vs where
    vs: "map stop_loss (sl_states st' ticks) = map Some vs"
    and vbuy: "position st' = Some ''BUY'' \<longrightarrow> sorted_wrt (\<le>) (v # vs)"
    and vsell: "position st' = Some ''SELL'' \<longrightarrow> sorted_wrt (\<ge>) (v # vs)"
    by blast
  have "map stop_loss (sl_states st (t # ticks)) = map Some (v # vs)"
    using vs v by (simp add: t st'_def[symmetric] Let_def)
  moreover have "position st = Some ''BUY'' \<longrightarrow> sorted_wrt (\<le>) (s # v # vs)"
    using vbuy buy pos by auto
  moreover have "position st = Some ''SELL'' \<longrightarrow> sorted_wrt (\<ge>) (s # v # vs)"
    using vsell sell pos by auto
  ultimately show ?case by blast
qed

text \<open>
  Claim C2. Take a trade whose stop is set and any sequence of calls to
  \<open>check_and_update_sl\<close> (skipped, near-target tightening or ordinary trailing, each
  call starting from the state the previous one left). The stop stays set after every call;
  the stops in force, beginning with the initial one, are non-decreasing for a BUY position
  and non-increasing for a SELL position; and \<open>maybe_update_sl\<close> leaves the state as it
  is for every candidate that is not strictly more favourable than the current stop.
\<close>

theorem trailing_sl_non_regressive:
  assumes "stop_loss st = Some s"
  shows "(\<exists>vs. map stop_loss (sl_states st ticks) = map Some vs \<and>
            (position st = Some ''BUY'' \<longrightarrow> sorted_wrt (\<le>) (s # vs)) \<and>
            (position st = Some ''SELL'' \<longrightarrow> sorted_wrt (\<ge>) (s # vs))) \<and>
         (position st = Some ''BUY'' \<and> c \<le> s \<longrightarrow> fst (maybe_update_sl st td c p) = st) \<and>
         (position st = Some ''SELL'' \<and> s \<le> c \<longrightarrow> fst (maybe_update_sl st td c p) = st)"
proof (intro conjI)
  show "\<exists>vs. map stop_loss (sl_states st ticks) = map Some vs \<and>
            (position st = Some ''BUY'' \<longrightarrow> sorted_wrt (\<le>) (s # vs)) \<and>
            (position st = Some ''SELL'' \<longrightarrow> sorted_wrt (\<ge>) (s # vs))"
    by (rule sl_states_values[OF assms])
  show "position st = Some ''BUY'' \<and> c \<le> s \<longrightarrow> fst (maybe_update_sl st td c p) = st"
    using maybe_update_sl_raw[OF assms, of td c p] by fastforce
  show "position st = Some ''SELL'' \<and> s \<le> c \<longrightarrow> fst (maybe_update_sl st td c p) = st"
    using maybe_update_sl_raw[OF assms, of td c p] by fastforce
qed

lemma long_ticks_stops:
  "map stop_loss (sl_states long_trade long_ticks) = [Some 22030, Some 22030, Some 22090]"
  by (simp add: long_trade_def long_ticks_def TradeState_init_def check_and_update_sl_def
      age_seconds_def trunc_div_def handle_buy_sl_def maybe_update_sl_def py_round_def
      round_half_even_def Let_def)

lemma short_ticks_stops:
  "map stop_loss (sl_states short_trade short_ticks) = [Some 21970, Some 21970, Some 21910]"
  by (simp add: short_trade_def short_ticks_def TradeState_init_def check_and_update_sl_def
      age_seconds_def trunc_div_def handle_sell_sl_def maybe_update_sl_def py_round_def
      round_half_even_def Let_def)

theorem trailing_sl_non_regressive_witness:
  "stop_loss long_trade = Some 21950 \<and> position long_trade = Some ''BUY'' \<and>
   map stop_loss (sl_states long_trade long_ticks) = map Some [22030, 22030, 22090] \<and>
   sorted_wrt (\<le>) [21950, 22030, 22030, 22090 :: real] \<and>
   fst (maybe_update_sl long_trade None 21950 22000) = long_trade \<and>
   stop_loss short_trade = Some 22050 \<and> position short_trade = Some ''SELL'' \<and>
   map stop_loss (sl_states short_trade short_ticks) = map Some [21970, 21970, 21910] \<and>
   sorted_wrt (\<ge>) [22050, 21970, 21970, 21910 :: real] \<and>
   fst (maybe_update_sl short_trade None 22050 22000) = short_trade"
proof -
  have l: "stop_loss long_trade = Some 21950" "position long_trade = Some ''BUY''"
    by (simp_all add: long_trade_def TradeState_init_def)
  have s: "stop_loss short_trade = Some 22050" "position short_trade = Some ''SELL''"
    by (simp_all add: short_trade_def TradeState_init_def)
  from trailing_sl_non_regressive[OF l(1), of long_ticks 21950 None 22000]
    trailing_sl_non_regressive[OF s(1), of short_ticks 22050 None 22000]
  show ?thesis
    using l s long_ticks_stops short_ticks_stops by simp
qed

section \<open>Orders and profit and loss\<close>

text \<open>
  Claim C1, evaluated on the code. A BUY trade is open (entry 22000, stop 21950, strategy
  ORB) and \<open>place_order\<close> is called for a SELL at 22100 with stop 22150 under VWAP\_REV.
  The call records nothing and leaves \<open>trade_id\<close>, \<open>entry_time\<close>, \<open>target_price\<close> and
  \<open>qty\<close> alone, but \<open>trade_direction\<close>, \<open>entry_price\<close>, \<open>stop_loss\<close> and \<open>strategy\<close>
  now hold the refused order's values while the trade is still open.
\<close>

theorem place_order_open_trade_overwrites:
  "place_order executor_long ''t-9'' 77 (Some 77) ''SELL'' 22100 22150 ''VWAP_REV'' 1 =
     (executor_long\<lparr>self_state := long_trade
        \<lparr>trade_direction := Some ''SELL'', entry_price := Some 22100,
         stop_loss := Some 22150, strategy := Some ''VWAP_REV''\<rparr>\<rparr>, None) \<and>
   open_trade long_trade = Some True \<and>
   trade_direction long_trade = Some ''BUY'' \<and> entry_price long_trade = Some 22000 \<and>
   stop_loss long_trade = Some 21950 \<and> strategy long_trade = Some ''ORB''"
  by (simp add: place_order_def executor_long_def long_trade_def TradeState_init_def)

text \<open>
  Claim C4 as stated fails in the second decimal. For a BUY trade of 25 entered at 22005 and
  closed at 22045 the formula gives 935.195 exactly, which rounds to 935.20. The code forms
  the same terms in doubles, arrives just below, at 935.1949999999999..., and returns
  935.19.
\<close>

theorem calculate_pnl_exact_counterexample:
  "calculate_pnl executor_22005 22045 = Inr (rd 935.19) \<and>
   net_pnl_spec 22005 22045 25 ''BUY'' ''BUY'' = 935.2 \<and>
   rd 935.19 < 935.195 \<and> rd 935.19 \<noteq> rd 935.2"
  by code_simp

lemma calculate_pnl_eq_double_spec:
  assumes "entry_price (self_state ex) = Some entry"
    and "trade_direction (self_state ex) = Some direction"
    and "trade_type (self_state ex) = Some ttype"
  shows "calculate_pnl ex exit_price =
           Inr (net_pnl_double_spec entry exit_price (qty (self_state ex)) direction ttype)"
  using assms
  by (simp add: calculate_pnl_def net_pnl_double_spec_def spec_gross_def spec_turnover_def
      spec_brokerage_def spec_stt_def spec_gst_def spec_fee_def spec_stamp_def Let_def)

text \<open>
  Claim C4, amended. With an entry price, a direction and a trade type recorded, the
  direction being BUY or SELL, \<open>calculate_pnl\<close> returns the gross amount less the sum of
  brokerage, securities transaction tax (SELL only), GST, regulatory fee and stamp duty
  (BUY only), each formed by its formula in double arithmetic, the difference rounded to
  two decimals as \<^verbatim>\<open>round\<close> rounds a double. The value is a double nearest to a number of
  hundredths and depends on nothing but the five inputs.
\<close>

theorem calculate_pnl_double_formula:
  assumes "entry_price (self_state ex) = Some entry"
    and "trade_direction (self_state ex) = Some direction"
    and "trade_type (self_state ex) = Some ttype"
    and "direction = ''BUY'' \<or> direction = ''SELL''"
  shows "calculate_pnl ex exit_price =
           Inr (net_pnl_double_spec entry exit_price (qty (self_state ex)) direction ttype) \<and>
         (\<exists>k::int. net_pnl_double_spec entry exit_price (qty (self_state ex)) direction ttype =
                    rd (of_int k / 100))"
proof
  show "calculate_pnl ex exit_price =
           Inr (net_pnl_double_spec entry exit_price (qty (self_state ex)) direction ttype)"
    using assms(1-3) by (rule calculate_pnl_eq_double_spec)
  show "\<exists>k::int. net_pnl_double_spec entry exit_price (qty (self_state ex)) direction ttype =
                    rd (of_int k / 100)"
    by (auto simp: net_pnl_double_spec_def dbl_round_def py_round_def)
qed

lemma double_spec_values:
  "net_pnl_double_spec 22000 22050 25 ''BUY'' ''BUY'' = rd 1185.2"
  "net_pnl_double_spec 22005 22045 25 ''BUY'' ''BUY'' = rd 935.19"
  "net_pnl_double_spec 22005 22045 25 ''SELL'' ''SELL'' = rd (- 1186.08)"
  by code_simp+

theorem calculate_pnl_double_formula_witness:
  "calculate_pnl executor_long 22050 = Inr (rd 1185.2) \<and>
   calculate_pnl executor_22005 22045 = Inr (rd 935.19) \<and>
   net_pnl_double_spec 22000 22050 25 ''BUY'' ''BUY'' = rd 1185.2"
proof -
  have a: "entry_price (self_state executor_long) = Some 22000"
    "trade_direction (self_state executor_long) = Some ''BUY''"
    "trade_type (self_state executor_long) = Some ''BUY''"
    "qty (self_state executor_long) = 25"
    by (simp_all add: executor_long_def long_trade_def TradeState_init_def)
  have b: "entry_price (self_state executor_22005) = Some 22005"
    "trade_direction (self_state executor_22005) = Some ''BUY''"
    "trade_type (self_state executor_22005) = Some ''BUY''"
    "qty (self_state executor_22005) = 25"
    by (simp_all add: executor_22005_def executor_long_def long_trade_def TradeState_init_def)
  from calculate_pnl_double_formula[OF a(1) a(2) a(3), of 22050]
    calculate_pnl_double_formula[OF b(1) b(2) b(3), of 22045]
  show ?thesis
    using a(4) b(4) double_spec_values by simp
qed

section \<open>The signal evaluators\<close>

lemma bind_exn_Inr_iff: "bind_exn m f = Inr d \<longleftrightarrow> (\<exists>x. m = Inr x \<and> f x = Inr d)"
  by (cases m) (simp_all add: bind_exn_def)

lemma fl_le_not_lt: "fl_le a b \<Longrightarrow> \<not> fl_lt b a"
  by (cases a; cases b) auto

text \<open>
  The short block computes its validity flag from the long block's comparison with \<open><\<close>;
  on floats that is the strict form of the mirrored gate.
\<close>

lemma fl_short_mirror:
  "fl_lt (fl_sub t e) (fl_mul (Num k) (fl_sub e s)) \<Longrightarrow>
   fl_le (fl_mul (Num k) (fl_sub s e)) (fl_sub e t) \<and>
   \<not> fl_lt (fl_sub e t) (fl_mul (Num k) (fl_sub s e))"
  by (cases t; cases e; cases s) (auto simp: algebra_simps)

lemma vwap_long_valid:
  assumes "vwap_long self r entry = Inr d" "valid d"
  shows "\<exists>sl target. entry_d d = Some entry \<and> sl_d d = Some sl \<and> target_d d = Some target \<and>
           signal d = Some ''BUY'' \<and> rr_gate_long (rr_threshold self) entry sl target"
  using assms
  by (auto simp: vwap_long_def bind_exn_Inr_iff Let_def rejection_def rr_gate_long_def
      split: if_splits dest: fl_le_not_lt)

lemma vwap_short_valid:
  assumes "vwap_short self r entry = Inr d" "valid d"
  shows "\<exists>sl target. entry_d d = Some entry \<and> sl_d d = Some sl \<and> target_d d = Some target \<and>
           signal d = Some ''SELL'' \<and> rr_gate_short (rr_threshold self) entry sl target"
  using assms
  by (auto simp: vwap_short_def bind_exn_Inr_iff Let_def rejection_def rr_gate_short_def
      split: if_splits dest: fl_short_mirror)

lemma vwap_body_valid:
  assumes "vwap_body self r = Inr d" "valid d"
  shows "\<exists>entry. vwap_long self r entry = Inr d \<or> vwap_short self r entry = Inr d"
  using assms
  by (auto simp: vwap_body_def bind_exn_Inr_iff Let_def rejection_def split: if_splits)

lemma vwap_evaluate_valid:
  assumes "valid (vwap_evaluate self r)"
  shows "vwap_body self r = Inr (vwap_evaluate self r)"
  using assms by (auto simp: vwap_evaluate_def rejection_def split: sum.splits)

text \<open>The body is its checks followed by the block they lead to.\<close>

lemma vwap_body_checks:
  "vwap_body self r =
     bind_exn (vwap_checks self r) (\<lambda>step.
       case step of
         Rejected d \<Rightarrow> Inr d
       | LongCross entry \<Rightarrow> vwap_long self r entry
       | ShortCross entry \<Rightarrow> vwap_short self r entry)"
  by (simp add: vwap_body_def vwap_checks_def bind_exn_def Let_def split: sum.splits)

lemma vwap_checks_entry:
  assumes "vwap_checks self r = Inr (LongCross entry) \<or>
           vwap_checks self r = Inr (ShortCross entry)"
  shows "\<exists>e. entry = Num e"
proof (cases entry)
  case (Num e)
  then show ?thesis by simp
next
  case NaN
  with assms show ?thesis
    by (auto simp: vwap_checks_def bind_exn_Inr_iff Let_def isna_def split: if_splits)
qed

lemma vwap_long_rejects:
  assumes "row_date r = Some dt"
    and "row_cells r ''orb_sl'' = Some (Num s)" "row_cells r ''orb_target'' = Some (Num t)"
    and "\<not> rr_gate_long (rr_threshold self) (Num e) (Num s) (Num t)"
  shows "vwap_long self r (Num e) =
           Inr (rejection False
                  (RiskRewardTooLow (Num (t - e)) (Num (rr_threshold self * (e - s)))))"
  using assms
  by (auto simp: vwap_long_def bind_exn_def Let_def rr_gate_long_def get_def get_date_def)

lemma vwap_short_rejects:
  assumes "row_date r = Some dt"
    and "row_cells r ''orb_sl'' = Some (Num s)" "row_cells r ''orb_target'' = Some (Num t)"
    and "\<not> rr_gate_short (rr_threshold self) (Num e) (Num s) (Num t)"
  shows "vwap_short self r (Num e) =
           Inr (rejection False
                  (RiskRewardTooLow (Num (e - t)) (Num (rr_threshold self * (s - e)))))"
  using assms
  by (auto simp: vwap_short_def bind_exn_def Let_def rr_gate_short_def get_def get_date_def
      algebra_simps)

lemma vwap_evaluate_long_rejects:
  assumes "vwap_checks self r = Inr (LongCross (Num e))" "row_date r = Some dt"
    and "row_cells r ''orb_sl'' = Some (Num s)" "row_cells r ''orb_target'' = Some (Num t)"
    and "\<not> rr_gate_long (rr_threshold self) (Num e) (Num s) (Num t)"
  shows "vwap_evaluate self r =
           rejection False (RiskRewardTooLow (Num (t - e)) (Num (rr_threshold self * (e - s))))"
  using vwap_long_rejects[OF assms(2-5)] assms(1)
  by (simp add: vwap_evaluate_def vwap_body_checks bind_exn_def)

lemma vwap_evaluate_short_rejects:
  assumes "vwap_checks self r = Inr (ShortCross (Num e))" "row_date r = Some dt"
    and "row_cells r ''orb_sl'' = Some (Num s)" "row_cells r ''orb_target'' = Some (Num t)"
    and "\<not> rr_gate_short (rr_threshold self) (Num e) (Num s) (Num t)"
  shows "vwap_evaluate self r =
           rejection False (RiskRewardTooLow (Num (e - t)) (Num (rr_threshold self * (s - e))))"
  using vwap_short_rejects[OF assms(2-5)] assms(1)
  by (simp add: vwap_evaluate_def vwap_body_checks bind_exn_def)

lemma vwap_checks_long_rows:
  "vwap_checks vwap_params long_row_null_levels = Inr (LongCross (Num 105))"
  "vwap_checks vwap_params (long_row x) = Inr (LongCross (Num 105))"
  "vwap_checks vwap_params (short_row x) = Inr (ShortCross (Num 100))"
  by (simp_all add: vwap_checks_def long_row_def short_row_def long_row_null_levels_def
      vwap_params_def bind_exn_def get_def atr_ratio_low_def isna_def Let_def)

lemma vwap_evaluate_null_levels:
  "vwap_evaluate vwap_params long_row_null_levels =
     \<lparr>date_d = Some (Stamp ten_o_clock), signal = Some ''BUY'', entry_d = Some (Num 105),
      sl_d = Some NaN, target_d = Some NaN, valid = False, strategy_d = Some ''VWAP_REV'',
      reason = NoReason\<rparr>"
  by (simp add: vwap_evaluate_def vwap_body_def vwap_long_def long_row_null_levels_def
      vwap_params_def bind_exn_def get_def get_date_def atr_ratio_low_def isna_def Let_def)

text \<open>
  Claim C3 as stated fails where the levels are null. The bar \<open>long_row_null_levels\<close>
  crosses the upper band with the trend, so the long block is entered; its stop and target
  are null, the gate \<open>(target - entry) \<ge> threshold \<times> (entry - stop)\<close> does not hold, and the
  decision returned is invalid but carries the BUY signal and the empty reason: no
  comparison is reported.
\<close>

theorem vwap_null_levels_no_reason_counterexample:
  "vwap_checks vwap_params long_row_null_levels = Inr (LongCross (Num 105)) \<and>
   \<not> rr_gate_long (rr_threshold vwap_params) (Num 105) NaN NaN \<and>
   signal (vwap_evaluate vwap_params long_row_null_levels) = Some ''BUY'' \<and>
   \<not> valid (vwap_evaluate vwap_params long_row_null_levels) \<and>
   reason (vwap_evaluate vwap_params long_row_null_levels) = NoReason"
  by (simp add: vwap_evaluate_null_levels vwap_checks_long_rows rr_gate_long_def)

text \<open>
  Claim C3, amended. A decision of the reversion evaluator is valid only if it carries a
  signal with entry, stop and target for which the risk/reward gate holds:
  \<open>(target - entry) \<ge> threshold \<times> (entry - stop)\<close> for BUY and
  \<open>(entry - target) \<ge> threshold \<times> (stop - entry)\<close> for SELL. When the checks of the
  evaluator end with a band crossed with the trend, on a row that has its date and whose
  stop and target are not null, and the gate fails, the evaluator returns the invalid
  decision with every field \<^verbatim>\<open>None\<close> whose reason reports the two numbers compared. The
  entry price with which a band is crossed is never null.
\<close>

theorem vwap_risk_reward_gate:
  "(valid (vwap_evaluate self r) \<longrightarrow>
      (\<exists>entry sl target.
         entry_d (vwap_evaluate self r) = Some entry \<and>
         sl_d (vwap_evaluate self r) = Some sl \<and>
         target_d (vwap_evaluate self r) = Some target \<and>
         (signal (vwap_evaluate self r) = Some ''BUY'' \<and>
            rr_gate_long (rr_threshold self) entry sl target \<or>
          signal (vwap_evaluate self r) = Some ''SELL'' \<and>
            rr_gate_short (rr_threshold self) entry sl target))) \<and>
   (vwap_checks self r = Inr (LongCross (Num e)) \<and> row_date r = Some dt \<and>
    row_cells r ''orb_sl'' = Some (Num s) \<and> row_cells r ''orb_target'' = Some (Num t) \<and>
    \<not> rr_gate_long (rr_threshold self) (Num e) (Num s) (Num t) \<longrightarrow>
      vwap_evaluate self r =
        rejection False
          (RiskRewardTooLow (Num (t - e)) (Num (rr_threshold self * (e - s))))) \<and>
   (vwap_checks self r = Inr (ShortCross (Num e)) \<and> row_date r = Some dt \<and>
    row_cells r ''orb_sl'' = Some (Num s) \<and> row_cells r ''orb_target'' = Some (Num t) \<and>
    \<not> rr_gate_short (rr_threshold self) (Num e) (Num s) (Num t) \<longrightarrow>
      vwap_evaluate self r =
        rejection False
          (RiskRewardTooLow (Num (e - t)) (Num (rr_threshold self * (s - e))))) \<and>
   (vwap_checks self r = Inr (LongCross entry) \<or>
    vwap_checks self r = Inr (ShortCross entry) \<longrightarrow> (\<exists>x. entry = Num x))"
proof (intro conjI impI)
  assume v: "valid (vwap_evaluate self r)"
  from vwap_body_valid[OF vwap_evaluate_valid[OF v] v]
  obtain entry where
    "vwap_long self r entry = Inr (vwap_evaluate self r) \<or>
     vwap_short self r entry = Inr (vwap_evaluate self r)"
    by blast
  then show "\<exists>entry sl target.
         entry_d (vwap_evaluate self r) = Some entry \<and>
         sl_d (vwap_evaluate self r) = Some sl \<and>
         target_d (vwap_evaluate self r) = Some target \<and>
         (signal (vwap_evaluate self r) = Some ''BUY'' \<and>
            rr_gate_long (rr_threshold self) entry sl target \<or>
          signal (vwap_evaluate self r) = Some ''SELL'' \<and>
            rr_gate_short (rr_threshold self) entry sl target)"
    using vwap_long_valid[OF _ v] vwap_short_valid[OF _ v] by blast
next
  assume "vwap_checks self r = Inr (LongCross (Num e)) \<and> row_date r = Some dt \<and>
    row_cells r ''orb_sl'' = Some (Num s) \<and> row_cells r ''orb_target'' = Some (Num t) \<and>
    \<not> rr_gate_long (rr_threshold self) (Num e) (Num s) (Num t)"
  then show "vwap_evaluate self r =
        rejection False
          (RiskRewardTooLow (Num (t - e)) (Num (rr_threshold self * (e - s))))"
    using vwap_evaluate_long_rejects by blast
next
  assume "vwap_checks self r = Inr (ShortCross (Num e)) \<and> row_date r = Some dt \<and>
    row_cells r ''orb_sl'' = Some (Num s) \<and> row_cells r ''orb_target'' = Some (Num t) \<and>
    \<not> rr_gate_short (rr_threshold self) (Num e) (Num s) (Num t)"
  then show "vwap_evaluate self r =
        rejection False
          (RiskRewardTooLow (Num (e - t)) (Num (rr_threshold self * (s - e))))"
    using vwap_evaluate_short_rejects by blast
next
  assume "vwap_checks self r = Inr (LongCross entry) \<or>
    vwap_checks self r = Inr (ShortCross entry)"
  then show "\<exists>x. entry = Num x"
    by (rule vwap_checks_entry)
qed

lemma vwap_evaluate_long_112:
  "vwap_evaluate vwap_params (long_row 112) =
     \<lparr>date_d = Some (Stamp ten_o_clock), signal = Some ''BUY'', entry_d = Some (Num 105),
      sl_d = Some (Num 100), target_d = Some (Num 112), valid = True,
      strategy_d = Some ''VWAP_REV'', reason = NoReason\<rparr>"
  by (simp add: vwap_evaluate_def vwap_body_def vwap_long_def long_row_def
      long_row_null_levels_def vwap_params_def bind_exn_def get_def get_date_def
      atr_ratio_low_def isna_def Let_def)

theorem vwap_risk_reward_gate_witness:
  "valid (vwap_evaluate vwap_params (long_row 112)) \<and>
   signal (vwap_evaluate vwap_params (long_row 112)) = Some ''BUY'' \<and>
   rr_gate_long 1.2 (Num 105) (Num 100) (Num 112) \<and>
   vwap_checks vwap_params (long_row 106) = Inr (LongCross (Num 105)) \<and>
   \<not> rr_gate_long 1.2 (Num 105) (Num 100) (Num 106) \<and>
   vwap_evaluate vwap_params (long_row 106) =
     rejection False (RiskRewardTooLow (Num 1) (Num 6)) \<and>
   vwap_checks vwap_params (short_row 95) = Inr (ShortCross (Num 100)) \<and>
   \<not> rr_gate_short 1.2 (Num 100) (Num 105) (Num 95) \<and>
   vwap_evaluate vwap_params (short_row 95) =
     rejection False (RiskRewardTooLow (Num 5) (Num 6))"
proof -
  have p: "rr_threshold vwap_params = 1.2"
    by (simp add: vwap_params_def)
  have c: "row_cells (long_row 106) ''orb_sl'' = Some (Num 100)"
    "row_cells (long_row 106) ''orb_target'' = Some (Num 106)"
    "row_cells (short_row 95) ''orb_sl'' = Some (Num 105)"
    "row_cells (short_row 95) ''orb_target'' = Some (Num 95)"
    "row_date (long_row 106) = Some (Stamp ten_o_clock)"
    "row_date (short_row 95) = Some (Stamp ten_o_clock)"
    by (simp_all add: long_row_def short_row_def long_row_null_levels_def)
  have g: "\<not> rr_gate_long 1.2 (Num 105) (Num 100) (Num 106)"
    "\<not> rr_gate_short 1.2 (Num 100) (Num 105) (Num 95)"
    by (simp_all add: rr_gate_long_def rr_gate_short_def)
  from vwap_risk_reward_gate[where self = vwap_params and r = "long_row 112"]
    vwap_risk_reward_gate[where self = vwap_params and r = "long_row 106" and e = 105
      and dt = "Stamp ten_o_clock" and s = 100 and t = 106]
    vwap_risk_reward_gate[where self = vwap_params and r = "short_row 95" and e = 100
      and dt = "Stamp ten_o_clock" and s = 105 and t = 95]
  show ?thesis
    using p c g vwap_evaluate_long_112 vwap_checks_long_rows
    by (simp add: rr_gate_long_def)
qed

lemma bind_exn_Inl_iff:
  "bind_exn m f = Inl e \<longleftrightarrow> m = Inl e \<or> (\<exists>x. m = Inr x \<and> f x = Inl e)"
  by (cases m) (simp_all add: bind_exn_def)

lemma get_Inl: "get r k = Inl e \<Longrightarrow> e = KeyError k"
  by (simp add: get_def split: option.splits)

lemma get_date_Inl: "get_date r = Inl e \<Longrightarrow> e = KeyError ''date''"
  by (simp add: get_date_def split: option.splits)

lemma get_time_Inl: "get_time r = Inl e \<Longrightarrow> e = KeyError ''date'' \<or> e = ValueError"
  by (auto simp: get_time_def get_date_def bind_exn_def split: option.splits tcell.splits)

lemma atr_ratio_low_Inl: "atr_ratio_low p a b = Inl e \<Longrightarrow> e = ZeroDivisionError"
  by (auto simp: atr_ratio_low_def split: fl.splits if_splits)

lemma vwap_long_Inl: "vwap_long self r x = Inl e \<Longrightarrow> \<exists>k. e = KeyError k"
  by (auto simp: vwap_long_def bind_exn_Inl_iff Let_def split: if_splits
      dest!: get_Inl get_date_Inl)

lemma vwap_short_Inl: "vwap_short self r x = Inl e \<Longrightarrow> \<exists>k. e = KeyError k"
  by (auto simp: vwap_short_def bind_exn_Inl_iff Let_def split: if_splits
      dest!: get_Inl get_date_Inl)

text \<open>What the two bodies can raise on a row of floats: a missing column, a division by
  zero on Python floats, a null date asked for its time.\<close>

lemma vwap_body_Inl:
  "vwap_body self r = Inl e \<Longrightarrow> (\<exists>k. e = KeyError k) \<or> e = ZeroDivisionError"
  by (auto simp: vwap_body_def bind_exn_Inl_iff Let_def split: if_splits
      dest!: get_Inl atr_ratio_low_Inl vwap_long_Inl vwap_short_Inl)

lemma orb_body_Inl:
  "orb_body r = Inl e \<Longrightarrow> (\<exists>k. e = KeyError k) \<or> e = ValueError"
  by (auto simp: orb_body_def bind_exn_Inl_iff Let_def split: if_splits
      dest!: get_Inl get_date_Inl get_time_Inl)

text \<open>
  Claim C8. Each evaluator is a function of its parameters and the row alone and returns a
  decision for every row: whatever the body of its \<^verbatim>\<open>try\<close> block returns is returned, and
  whatever exception the body raises (a missing column, a division by zero, a null date)
  becomes the invalid decision with every field \<^verbatim>\<open>None\<close> whose reason carries that
  exception. No state is read or written.
\<close>

theorem evaluators_never_raise:
  "(vwap_body self r = Inl e \<longrightarrow>
      vwap_evaluate self r = rejection False (ExceptionReason e) \<and>
      \<not> valid (vwap_evaluate self r) \<and>
      ((\<exists>k. e = KeyError k) \<or> e = ZeroDivisionError)) \<and>
   (vwap_body self r = Inr d \<longrightarrow> vwap_evaluate self r = d) \<and>
   (orb_body r = Inl e \<longrightarrow>
      orb_evaluate r = rejection False (ExceptionReason e) \<and> \<not> valid (orb_evaluate r) \<and>
      ((\<exists>k. e = KeyError k) \<or> e = ValueError)) \<and>
   (orb_body r = Inr d \<longrightarrow> orb_evaluate r = d)"
  using vwap_body_Inl[of self r e] orb_body_Inl[of r e]
  by (simp add: vwap_evaluate_def orb_evaluate_def rejection_def)

theorem evaluators_never_raise_witness:
  "vwap_body vwap_params row_without_close = Inl (KeyError ''close'') \<and>
   vwap_evaluate vwap_params row_without_close =
     rejection False (ExceptionReason (KeyError ''close'')) \<and>
   orb_body row_without_time = Inl ValueError \<and>
   orb_evaluate row_without_time = rejection False (ExceptionReason ValueError) \<and>
   vwap_body vwap_params (long_row 112) = Inr (vwap_evaluate vwap_params (long_row 112))"
proof -
  have a: "vwap_body vwap_params row_without_close = Inl (KeyError ''close'')"
    by (simp add: vwap_body_def row_without_close_def bind_exn_def get_def)
  have b: "orb_body row_without_time = Inl ValueError"
    by (simp add: orb_body_def row_without_time_def long_row_null_levels_def bind_exn_def
        get_def get_time_def get_date_def)
  have c: "vwap_body vwap_params (long_row 112) = Inr (vwap_evaluate vwap_params (long_row 112))"
    by (rule vwap_evaluate_valid) (simp add: vwap_evaluate_long_112)
  from evaluators_never_raise[of vwap_params row_without_close "KeyError ''close''"]
    evaluators_never_raise[of vwap_params row_without_time ValueError]
    evaluators_never_raise[of vwap_params "long_row 112" ValueError
      "vwap_evaluate vwap_params (long_row 112)"]
  show ?thesis using a b c by simp
qed

section \<open>The indicator engine keeps the rows and is idempotent\<close>

lemma length_shift: "length (shift k xs) = length xs"
  by (simp add: shift_def)

lemma length_ewm_from: "length (ewm_from a p xs) = length xs"
  by (induction xs arbitrary: p) (simp_all add: Let_def)

lemma length_ewm_mean: "length (ewm_mean sp xs) = length xs"
  by (cases xs) (simp_all add: ewm_mean_def length_ewm_from)

lemma length_rolling_mean: "length (rolling_mean w xs) = length xs"
  by (simp add: rolling_mean_def)

lemma length_pct_change: "length (pct_change xs) = length xs"
  by (cases xs) (simp_all add: pct_change_def)

lemma add_technical_indicators_wf:
  assumes "wf_frame df"
  shows "wf_frame (add_technical_indicators df)"
  using assms
  by (auto simp: wf_frame_def add_technical_indicators_def length_shift length_ewm_mean
      length_rolling_mean length_pct_change split: if_splits)

lemma add_technical_indicators_ATR: "df_cols (add_technical_indicators df) ''ATR'' \<noteq> None"
  by (simp add: add_technical_indicators_def)

text \<open>
  Claim C9. \<open>add_technical_indicators\<close> leaves the index, the dates and the five raw
  columns as they are, so the rows keep their order and number; on a frame whose columns
  all have one cell per row every column of the result has one cell per row; and applying
  it to its own result changes nothing.
\<close>

theorem add_technical_indicators_idempotent:
  "add_technical_indicators (add_technical_indicators df) = add_technical_indicators df \<and>
   df_index (add_technical_indicators df) = df_index df \<and>
   df_date (add_technical_indicators df) = df_date df \<and>
   df_open (add_technical_indicators df) = df_open df \<and>
   df_high (add_technical_indicators df) = df_high df \<and>
   df_low (add_technical_indicators df) = df_low df \<and>
   df_close (add_technical_indicators df) = df_close df \<and>
   df_volume (add_technical_indicators df) = df_volume df \<and>
   (wf_frame df \<longrightarrow> wf_frame (add_technical_indicators df))"
proof (intro conjI)
  show "wf_frame df \<longrightarrow> wf_frame (add_technical_indicators df)"
    using add_technical_indicators_wf by blast
qed (simp_all add: add_technical_indicators_def)

lemma wf_two_day_frame: "wf_frame two_day_frame"
  by (simp add: wf_frame_def two_day_frame_def)

theorem add_technical_indicators_idempotent_witness:
  "wf_frame two_day_frame \<and> wf_frame (add_technical_indicators two_day_frame) \<and>
   length (df_index (add_technical_indicators two_day_frame)) = 6 \<and>
   add_technical_indicators (add_technical_indicators two_day_frame) =
     add_technical_indicators two_day_frame"
proof -
  have "length (df_index two_day_frame) = 6"
    by (simp add: two_day_frame_def)
  with add_technical_indicators_idempotent[of two_day_frame] wf_two_day_frame
  show ?thesis by simp
qed

section \<open>Strategy levels\<close>

lemma length_assign_masked:
  "length (assign_masked d dates vals old) = min (length dates) (min (length vals) (length old))"
  by (simp add: assign_masked_def)

lemma nth_assign_masked:
  assumes "i < length dates" "i < length vals" "i < length old"
  shows "assign_masked d dates vals old ! i =
           (if date_of (dates ! i) = d then vals ! i else old ! i)"
  using assms by (simp add: assign_masked_def)

lemma length_init_col: "wf_frame df \<Longrightarrow> length (init_col df c) = length (df_index df)"
  by (auto simp: init_col_def wf_frame_def split: option.splits)

text \<open>What a round of the loop that returns a frame has done.\<close>

lemma assign_day_cases:
  assumes "assign_day eb sf tf am act d df m = (Inr df', m')"
  shows "(narrow_morning df d \<and> df' = df \<and> m' = m) \<or>
         (\<not> narrow_morning df d \<and> m' = m(d \<mapsto> choose_strategy (day_group df d) am act) \<and>
          (\<exists>v1 v2 v3 v4.
             df' = df\<lparr>df_cols := (df_cols df)
               (''orb_long_entry'' \<mapsto>
                  assign_masked d (df_date df) v1 (init_col df ''orb_long_entry''),
                ''orb_short_entry'' \<mapsto>
                  assign_masked d (df_date df) v2 (init_col df ''orb_short_entry''),
                ''orb_sl'' \<mapsto> assign_masked d (df_date df) v3 (init_col df ''orb_sl''),
                ''orb_target'' \<mapsto>
                  assign_masked d (df_date df) v4 (init_col df ''orb_target''))\<rparr> \<and>
             (wf_frame df \<longrightarrow>
                length v1 = length (df_index df) \<and> length v2 = length (df_index df) \<and>
                length v3 = length (df_index df) \<and> length v4 = length (df_index df))))"
proof (cases "narrow_morning df d")
  case True
  with assms show ?thesis by (simp add: assign_day_def)
next
  case False
  show ?thesis
  proof (cases "choose_strategy (day_group df d) am act = ''ORB''")
    case orb: True
    with False assms obtain atrs where atrs: "df_cols df ''ATR'' = Some atrs"
      by (auto simp: assign_day_def Let_def split: option.splits)
    have len: "wf_frame df \<Longrightarrow> length atrs = length (df_index df)"
      using atrs by (simp add: wf_frame_def)
    from False orb atrs assms show ?thesis
      by (auto simp: assign_day_def Let_def len intro!: exI)
  next
    case vw: False
    with False assms show ?thesis
      by (auto simp: assign_day_def Let_def intro!: exI)
  qed
qed

lemma narrow_morning_cong:
  assumes "df_date df' = df_date df" "df_high df' = df_high df" "df_low df' = df_low df"
  shows "narrow_morning df' x = narrow_morning df x"
  using assms by (simp add: narrow_morning_def morning_high_def morning_low_def day_group_def)

lemma assign_day_raw:
  assumes "assign_day eb sf tf am act d df m = (Inr df', m')"
  shows "df_index df' = df_index df" "df_date df' = df_date df" "df_high df' = df_high df"
    "df_low df' = df_low df" "df_open df' = df_open df" "df_close df' = df_close df"
    "df_volume df' = df_volume df" "df_cols df' ''ATR'' = df_cols df ''ATR''"
  using assign_day_cases[OF assms] by auto

lemma assign_day_defined:
  assumes "assign_day eb sf tf am act d df m = (Inr df', m')" "df_cols df c \<noteq> None"
  shows "df_cols df' c \<noteq> None"
  using assign_day_cases[OF assms(1)] assms(2) by auto

lemma assign_day_wf:
  assumes "assign_day eb sf tf am act d df m = (Inr df', m')" "wf_frame df"
  shows "wf_frame df'"
proof -
  note c = assign_day_cases[OF assms(1)]
  show ?thesis
  proof (cases "narrow_morning df d")
    case True
    with c assms(2) show ?thesis by simp
  next
    case False
    with c assms(2) obtain v1 v2 v3 v4 where
      df': "df' = df\<lparr>df_cols := (df_cols df)
               (''orb_long_entry'' \<mapsto>
                  assign_masked d (df_date df) v1 (init_col df ''orb_long_entry''),
                ''orb_short_entry'' \<mapsto>
                  assign_masked d (df_date df) v2 (init_col df ''orb_short_entry''),
                ''orb_sl'' \<mapsto> assign_masked d (df_date df) v3 (init_col df ''orb_sl''),
                ''orb_target'' \<mapsto>
                  assign_masked d (df_date df) v4 (init_col df ''orb_target''))\<rparr>"
      and len: "length v1 = length (df_index df)" "length v2 = length (df_index df)"
        "length v3 = length (df_index df)" "length v4 = length (df_index df)"
      by auto
    have d: "length (df_date df) = length (df_index df)"
      using assms(2) by (simp add: wf_frame_def)
    show ?thesis
      using assms(2) unfolding df'
      by (auto simp: wf_frame_def length_assign_masked len d length_init_col[OF assms(2)]
          split: if_splits)
  qed
qed

text \<open>
  A round leaves the rows of a narrow day alone: either it is that day's round and is
  skipped, or it is another day's and its mask does not cover them.
\<close>

lemma assign_day_rows_kept:
  assumes "assign_day eb sf tf am act d df m = (Inr df', m')" "wf_frame df"
    and "narrow_morning df d0" "c \<in> set orb_columns"
    and "i < length (df_index df)" "date_of (df_date df ! i) = d0"
  shows "init_col df' c ! i = init_col df c ! i \<and> m' d0 = m d0"
proof -
  note cs = assign_day_cases[OF assms(1)]
  show ?thesis
  proof (cases "narrow_morning df d")
    case True
    with cs show ?thesis by simp
  next
    case False
    with assms(3) have ne: "d \<noteq> d0" by auto
    from False cs assms(2) obtain v1 v2 v3 v4 where
      df': "df' = df\<lparr>df_cols := (df_cols df)
               (''orb_long_entry'' \<mapsto>
                  assign_masked d (df_date df) v1 (init_col df ''orb_long_entry''),
                ''orb_short_entry'' \<mapsto>
                  assign_masked d (df_date df) v2 (init_col df ''orb_short_entry''),
                ''orb_sl'' \<mapsto> assign_masked d (df_date df) v3 (init_col df ''orb_sl''),
                ''orb_target'' \<mapsto>
                  assign_masked d (df_date df) v4 (init_col df ''orb_target''))\<rparr>"
      and len: "length v1 = length (df_index df)" "length v2 = length (df_index df)"
        "length v3 = length (df_index df)" "length v4 = length (df_index df)"
      and m': "m' = m(d \<mapsto> choose_strategy (day_group df d) am act)"
      by auto
    have d: "length (df_date df) = length (df_index df)"
      using assms(2) by (simp add: wf_frame_def)
    have keep: "assign_masked d (df_date df) v (init_col df c') ! i = init_col df c' ! i"
      if "length v = length (df_index df)" for v c'
      using that assms(5,6) ne d length_init_col[OF assms(2), of c']
      by (simp add: nth_assign_masked)
    have "init_col df' c ! i = init_col df c ! i"
      using assms(4) unfolding df'
      by (auto simp: orb_columns_def init_col_def[of "df\<lparr>df_cols := _\<rparr>"] keep len)
    moreover have "m' d0 = m d0"
      using m' ne by simp
    ultimately show ?thesis by simp
  qed
qed

lemma assign_days_rows_kept:
  assumes "assign_days eb sf tf am act ds df m = (Inr df', m')" "wf_frame df"
    and "narrow_morning df d0" "c \<in> set orb_columns"
    and "i < length (df_index df)" "date_of (df_date df ! i) = d0"
    and "df_cols df c \<noteq> None"
  shows "init_col df' c ! i = init_col df c ! i \<and> m' d0 = m d0 \<and> wf_frame df' \<and>
         df_index df' = df_index df \<and> df_cols df' c \<noteq> None"
  using assms
proof (induction ds arbitrary: df m)
  case Nil
  then show ?case by simp
next
  case (Cons d ds)
  from Cons.prems(1) obtain df1 m1 where
    step: "assign_day eb sf tf am act d df m = (Inr df1, m1)"
    and rest: "assign_days eb sf tf am act ds df1 m1 = (Inr df', m')"
    by (auto split: prod.splits sum.splits)
  note raw = assign_day_raw[OF step]
  have wf1: "wf_frame df1"
    by (rule assign_day_wf[OF step Cons.prems(2)])
  have n1: "narrow_morning df1 d0"
    using Cons.prems(3) narrow_morning_cong[OF raw(2) raw(3) raw(4)] by simp
  have k1: "init_col df1 c ! i = init_col df c ! i \<and> m1 d0 = m d0"
    by (rule assign_day_rows_kept[OF step Cons.prems(2) Cons.prems(3) Cons.prems(4)
          Cons.prems(5) Cons.prems(6)])
  have c1: "df_cols df1 c \<noteq> None"
    by (rule assign_day_defined[OF step Cons.prems(7)])
  have "init_col df' c ! i = init_col df1 c ! i \<and> m' d0 = m1 d0 \<and> wf_frame df' \<and>
         df_index df' = df_index df1 \<and> df_cols df' c \<noteq> None"
    using Cons.IH[OF rest wf1 n1 Cons.prems(4) _ _ c1] Cons.prems(5,6) raw(1,2) by simp
  with k1 raw(1) show ?case by simp
qed

lemma assign_day_total:
  assumes "df_cols df ''ATR'' \<noteq> None"
  shows "\<exists>df' m'. assign_day eb sf tf am act d df m = (Inr df', m')"
  using assms by (auto simp: assign_day_def Let_def)

lemma assign_days_total:
  assumes "df_cols df ''ATR'' \<noteq> None"
  shows "\<exists>df' m'. assign_days eb sf tf am act ds df m = (Inr df', m')"
  using assms
proof (induction ds arbitrary: df m)
  case Nil
  then show ?case by simp
next
  case (Cons d ds)
  from assign_day_total[OF Cons.prems] obtain df1 m1 where
    step: "assign_day eb sf tf am act d df m = (Inr df1, m1)"
    by blast
  have "df_cols df1 ''ATR'' \<noteq> None"
    using assign_day_raw(8)[OF step] Cons.prems by simp
  from Cons.IH[OF this] step show ?case by simp
qed

text \<open>The frame with its four level columns created, as the loop starts from it.\<close>

lemma init_frame_facts:
  fixes df :: frame
  defines "df1 \<equiv> df\<lparr>df_cols := (df_cols df)
                  (''orb_long_entry'' \<mapsto> init_col df ''orb_long_entry'',
                   ''orb_short_entry'' \<mapsto> init_col df ''orb_short_entry'',
                   ''orb_sl'' \<mapsto> init_col df ''orb_sl'',
                   ''orb_target'' \<mapsto> init_col df ''orb_target'')\<rparr>"
  shows "wf_frame df \<Longrightarrow> wf_frame df1"
    and "narrow_morning df1 x = narrow_morning df x"
    and "c \<in> set orb_columns \<Longrightarrow> init_col df1 c = init_col df c \<and> df_cols df1 c \<noteq> None"
    and "df_index df1 = df_index df" and "df_date df1 = df_date df"
    and "df_cols df1 ''ATR'' = df_cols df ''ATR''"
proof -
  show "wf_frame df \<Longrightarrow> wf_frame df1"
    using length_init_col[of df] by (auto simp: wf_frame_def df1_def split: if_splits)
  show "narrow_morning df1 x = narrow_morning df x"
    by (rule narrow_morning_cong) (simp_all add: df1_def)
  show "c \<in> set orb_columns \<Longrightarrow> init_col df1 c = init_col df c \<and> df_cols df1 c \<noteq> None"
    by (auto simp: orb_columns_def df1_def init_col_def[of "df\<lparr>df_cols := _\<rparr>"])
  show "df_index df1 = df_index df" "df_date df1 = df_date df"
    "df_cols df1 ''ATR'' = df_cols df ''ATR''"
    by (simp_all add: df1_def)
qed

lemma assign_strategy_levels_total:
  assumes "am \<or> act = ''ORB'' \<longrightarrow> df_cols df ''ATR'' \<noteq> None"
  shows "\<exists>df' m'. assign_strategy_levels df eb sf tf am act m = (Inr df', m')"
proof -
  define df1 where "df1 = df\<lparr>df_cols := (df_cols df)
                  (''orb_long_entry'' \<mapsto> init_col df ''orb_long_entry'',
                   ''orb_short_entry'' \<mapsto> init_col df ''orb_short_entry'',
                   ''orb_sl'' \<mapsto> init_col df ''orb_sl'',
                   ''orb_target'' \<mapsto> init_col df ''orb_target'')\<rparr>"
  note f = init_frame_facts[where df = df, folded df1_def]
  have "\<exists>df2 m2. (if am \<or> act = ''ORB''
            then assign_days eb sf tf am act (sort (remdups (map date_of (df_date df1)))) df1 m
            else (Inr df1, m)) = (Inr df2, m2)"
  proof (cases "am \<or> act = ''ORB''")
    case True
    with assms f(6) have "df_cols df1 ''ATR'' \<noteq> None" by simp
    from assign_days_total[OF this] True show ?thesis by simp
  next
    case False
    then show ?thesis by simp
  qed
  then show ?thesis
    unfolding assign_strategy_levels_def Let_def df1_def[symmetric] by auto
qed

lemma orb_null_level_rejected:
  assumes "row_cells r ''orb_long_entry'' = Some NaN"
  shows "\<not> valid (orb_evaluate r)"
proof
  assume v: "valid (orb_evaluate r)"
  then obtain d where b: "orb_body r = Inr d" and d: "valid d"
    by (auto simp: orb_evaluate_def rejection_def split: sum.splits)
  have g: "get r ''orb_long_entry'' = Inr NaN"
    using assms by (simp add: get_def)
  from b d show False
    by (auto simp: orb_body_def bind_exn_Inr_iff g isna_def rejection_def Let_def
        split: if_splits)
qed

text \<open>
  Claim C6. Let the span of the opening range (09:15 to 09:30) of a calendar day be below
  25 and let \<open>assign_strategy_levels\<close> return a frame. Then in each of the four level
  columns every row of that day holds what it held when the call began, null if the column
  was not there, or zero when the active strategy is VWAP\_REV; the call records no
  strategy for that day; and the breakout evaluator rejects every row whose long-entry
  level is null.
\<close>

theorem narrow_day_keeps_defaults:
  assumes "wf_frame df"
    and "assign_strategy_levels df eb sf tf am act m = (Inr df', m')"
    and "narrow_morning df d"
    and "i < length (df_index df)" "date_of (df_date df ! i) = d"
    and "c \<in> set orb_columns"
  shows "(\<exists>xs. df_cols df' c = Some xs \<and> length xs = length (df_index df) \<and>
            xs ! i = (if act = ''VWAP_REV'' then Num 0
                      else case df_cols df c of None \<Rightarrow> NaN | Some old \<Rightarrow> old ! i)) \<and>
         m' d = m d \<and>
         (row_cells r ''orb_long_entry'' = Some NaN \<longrightarrow> \<not> valid (orb_evaluate r))"
proof -
  define df1 where "df1 = df\<lparr>df_cols := (df_cols df)
                  (''orb_long_entry'' \<mapsto> init_col df ''orb_long_entry'',
                   ''orb_short_entry'' \<mapsto> init_col df ''orb_short_entry'',
                   ''orb_sl'' \<mapsto> init_col df ''orb_sl'',
                   ''orb_target'' \<mapsto> init_col df ''orb_target'')\<rparr>"
  note f = init_frame_facts[where df = df, folded df1_def]
  have wf1: "wf_frame df1" using f(1) assms(1) by simp
  have n1: "narrow_morning df1 d" using f(2) assms(3) by simp
  have c1: "init_col df1 c = init_col df c" "df_cols df1 c \<noteq> None"
    using f(3)[OF assms(6)] by simp_all
  have i1: "i < length (df_index df1)" "date_of (df_date df1 ! i) = d"
    using assms(4,5) f(4,5) by simp_all
  obtain df2 where
    loop: "(if am \<or> act = ''ORB''
            then assign_days eb sf tf am act (sort (remdups (map date_of (df_date df1)))) df1 m
            else (Inr df1, m)) = (Inr df2, m')"
    and res: "df' = (if act = ''VWAP_REV''
                then df2\<lparr>df_cols := (df_cols df2)
                       (''orb_long_entry'' \<mapsto> replicate (length (df_index df)) (Num 0),
                        ''orb_short_entry'' \<mapsto> replicate (length (df_index df)) (Num 0),
                        ''orb_sl'' \<mapsto> replicate (length (df_index df)) (Num 0),
                        ''orb_target'' \<mapsto> replicate (length (df_index df)) (Num 0))\<rparr>
                else df2)"
    using assms(2) unfolding assign_strategy_levels_def Let_def df1_def[symmetric]
    by (auto split: prod.splits sum.splits)
  have k: "init_col df2 c ! i = init_col df1 c ! i \<and> m' d = m d \<and> wf_frame df2 \<and>
           df_index df2 = df_index df1 \<and> df_cols df2 c \<noteq> None"
  proof (cases "am \<or> act = ''ORB''")
    case True
    with loop have "assign_days eb sf tf am act (sort (remdups (map date_of (df_date df1))))
                      df1 m = (Inr df2, m')"
      by simp
    from assign_days_rows_kept[OF this wf1 n1 assms(6) i1 c1(2)] show ?thesis .
  next
    case False
    with loop have "df2 = df1" "m' = m" by simp_all
    then show ?thesis using wf1 c1(2) by simp
  qed
  have old: "init_col df c ! i = (case df_cols df c of None \<Rightarrow> NaN | Some old \<Rightarrow> old ! i)"
    using assms(4) by (simp add: init_col_def split: option.splits)
  have cols: "\<exists>xs. df_cols df' c = Some xs \<and> length xs = length (df_index df) \<and>
            xs ! i = (if act = ''VWAP_REV'' then Num 0
                      else case df_cols df c of None \<Rightarrow> NaN | Some old \<Rightarrow> old ! i)"
  proof (cases "act = ''VWAP_REV''")
    case True
    then show ?thesis
      using res assms(4,6) k by (auto simp: orb_columns_def)
  next
    case False
    from k obtain xs where xs: "df_cols df2 c = Some xs" by auto
    then have "init_col df2 c = xs" by (simp add: init_col_def)
    moreover have "length xs = length (df_index df)"
      using k xs f(4) by (auto simp: wf_frame_def)
    ultimately show ?thesis
      using False res k xs c1(1) old by simp
  qed
  show ?thesis
    using cols k orb_null_level_rejected by blast
qed

lemma two_day_narrow:
  "narrow_morning two_day_frame 20000" "\<not> narrow_morning two_day_frame 20001"
  by code_simp+

lemma two_day_orb_levels:
  "map_sum id (\<lambda>df'. map (df_cols df') orb_columns)
     (fst (assign_strategy_levels two_day_frame 5 1.5 4 False ''ORB'' Map.empty)) =
   Inr [Some [NaN, NaN, NaN, Num 22050, Num 22050, Num 22050],
        Some [NaN, NaN, NaN, Num 21995, Num 21995, Num 21995],
        Some [NaN, NaN, NaN, Num 30, Num 30, Num 45],
        Some [NaN, NaN, NaN, Num 120, Num 120, Num 180]]"
  by code_simp

theorem narrow_day_keeps_defaults_witness:
  "wf_frame two_day_frame \<and> narrow_morning two_day_frame 20000 \<and>
   date_of (df_date two_day_frame ! 1) = 20000 \<and>
   (\<exists>df' m'. assign_strategy_levels two_day_frame 5 1.5 4 False ''ORB'' Map.empty =
                (Inr df', m') \<and>
      (\<exists>xs. df_cols df' ''orb_sl'' = Some xs \<and> length xs = 6 \<and> xs ! 1 = NaN) \<and>
      m' 20000 = None) \<and>
   orb_evaluate (orb_row\<lparr>row_cells := (row_cells orb_row)(''orb_long_entry'' \<mapsto> NaN)\<rparr>) =
     rejection False MissingORBLevels \<and>
   \<not> valid (orb_evaluate
        (orb_row\<lparr>row_cells := (row_cells orb_row)(''orb_long_entry'' \<mapsto> NaN)\<rparr>))"
proof -
  have atr: "False \<or> ''ORB'' = ''ORB'' \<longrightarrow> df_cols two_day_frame ''ATR'' \<noteq> None"
    by (simp add: two_day_frame_def)
  from assign_strategy_levels_total[OF atr] obtain df' m' where
    eq: "assign_strategy_levels two_day_frame 5 1.5 4 False ''ORB'' Map.empty = (Inr df', m')"
    by blast
  have i: "(1::nat) < length (df_index two_day_frame)"
    "date_of (df_date two_day_frame ! 1) = 20000"
    by (simp_all add: two_day_frame_def date_of_def day_us_def dt_time_def)
  have c: "''orb_sl'' \<in> set orb_columns"
    by (simp add: orb_columns_def)
  have n: "df_cols two_day_frame ''orb_sl'' = None" "length (df_index two_day_frame) = 6"
    by (simp_all add: two_day_frame_def)
  have r: "orb_evaluate (orb_row\<lparr>row_cells := (row_cells orb_row)(''orb_long_entry'' \<mapsto> NaN)\<rparr>)
           = rejection False MissingORBLevels"
    by (simp add: orb_evaluate_def orb_body_def orb_row_def bind_exn_def get_def get_time_def
        get_date_def time_of_def day_us_def dt_time_def isna_def Let_def)
  from narrow_day_keeps_defaults[OF wf_two_day_frame eq two_day_narrow(1) i c,
      of "orb_row\<lparr>row_cells := (row_cells orb_row)(''orb_long_entry'' \<mapsto> NaN)\<rparr>"]
  show ?thesis
    using wf_two_day_frame two_day_narrow(1) i(2) eq n r by simp
qed

text \<open>
  Claim C10. With VWAP\_REV as the active strategy, every frame that
  \<open>assign_strategy_levels\<close> returns has all four level columns zero in every row, whether
  or not adaptive mode made the loop over the days run before. It returns a frame unless
  the loop runs on a frame without an ATR column, so it does for every frame that comes
  from \<open>add_technical_indicators\<close>.
\<close>

theorem vwap_rev_levels_zero:
  assumes "act = ''VWAP_REV''"
  shows "(\<forall>df' m'. assign_strategy_levels df eb sf tf am act m = (Inr df', m') \<longrightarrow>
            (\<forall>c\<in>set orb_columns.
               df_cols df' c = Some (replicate (length (df_index df)) (Num 0)))) \<and>
         ((am \<longrightarrow> df_cols df ''ATR'' \<noteq> None) \<longrightarrow>
            (\<exists>df' m'. assign_strategy_levels df eb sf tf am act m = (Inr df', m'))) \<and>
         (\<exists>df' m'. assign_strategy_levels (add_technical_indicators df) eb sf tf am act m =
                     (Inr df', m'))"
proof (intro conjI allI impI)
  fix df' m'
  assume "assign_strategy_levels df eb sf tf am act m = (Inr df', m')"
  then show "\<forall>c\<in>set orb_columns.
               df_cols df' c = Some (replicate (length (df_index df)) (Num 0))"
    using assms
    by (auto simp: assign_strategy_levels_def Let_def orb_columns_def
        split: prod.splits sum.splits)
next
  assume "am \<longrightarrow> df_cols df ''ATR'' \<noteq> None"
  with assms have "am \<or> act = ''ORB'' \<longrightarrow> df_cols df ''ATR'' \<noteq> None"
    by simp
  then show "\<exists>df' m'. assign_strategy_levels df eb sf tf am act m = (Inr df', m')"
    by (rule assign_strategy_levels_total)
next
  show "\<exists>df' m'. assign_strategy_levels (add_technical_indicators df) eb sf tf am act m =
                     (Inr df', m')"
    by (rule assign_strategy_levels_total) (simp add: add_technical_indicators_ATR)
qed

text \<open>
  On the two-day frame in adaptive mode the loop gives day 20001 to the breakout strategy
  and assigns its levels; with VWAP\_REV active they are zero in the frame returned.
\<close>

lemma two_day_loop_levels:
  "map_sum id (\<lambda>df'. map (df_cols df') orb_columns)
     (fst (assign_days 5 1.5 4 True ''VWAP_REV'' [20000, 20001] two_day_frame Map.empty)) =
   Inr [Some [NaN, NaN, NaN, Num 22050, Num 22050, Num 22050],
        Some [NaN, NaN, NaN, Num 21995, Num 21995, Num 21995],
        Some [NaN, NaN, NaN, Num 30, Num 30, Num 45],
        Some [NaN, NaN, NaN, Num 120, Num 120, Num 180]]"
  by code_simp

lemma two_day_adaptive_map:
  "snd (assign_strategy_levels two_day_frame 5 1.5 4 True ''VWAP_REV'' Map.empty) 20001 =
     Some ''ORB''"
  by code_simp

theorem vwap_rev_levels_zero_witness:
  "\<exists>df' m'. assign_strategy_levels two_day_frame 5 1.5 4 True ''VWAP_REV'' Map.empty =
              (Inr df', m') \<and>
     df_cols df' ''orb_long_entry'' = Some [Num 0, Num 0, Num 0, Num 0, Num 0, Num 0] \<and>
     df_cols df' ''orb_short_entry'' = Some [Num 0, Num 0, Num 0, Num 0, Num 0, Num 0] \<and>
     df_cols df' ''orb_sl'' = Some [Num 0, Num 0, Num 0, Num 0, Num 0, Num 0] \<and>
     df_cols df' ''orb_target'' = Some [Num 0, Num 0, Num 0, Num 0, Num 0, Num 0] \<and>
     m' 20001 = Some ''ORB''"
proof -
  have v: "''VWAP_REV'' = ''VWAP_REV''" by simp
  have atr: "True \<longrightarrow> df_cols two_day_frame ''ATR'' \<noteq> None"
    by (simp add: two_day_frame_def)
  have n: "replicate (length (df_index two_day_frame)) (Num 0) =
             [Num 0, Num 0, Num 0, Num 0, Num 0, Num 0]"
    by (simp add: two_day_frame_def numeral_eq_Suc)
  note t = vwap_rev_levels_zero[OF v, where df = two_day_frame and eb = 5 and sf = "1.5" and tf = 4
      and am = True and m = Map.empty]
  from t atr obtain df' m' where
    eq: "assign_strategy_levels two_day_frame 5 1.5 4 True ''VWAP_REV'' Map.empty = (Inr df', m')"
    by blast
  with t have "\<forall>c\<in>set orb_columns. df_cols df' c = Some [Num 0, Num 0, Num 0, Num 0, Num 0, Num 0]"
    using n by simp
  moreover have "m' 20001 = Some ''ORB''"
    using two_day_adaptive_map eq by simp
  ultimately show ?thesis
    using eq by (simp add: orb_columns_def)
qed

section \<open>The filter chain\<close>

lemma bind_exn_simps:
  "bind_exn (Inr x) f = f x" "bind_exn (Inl e) f = Inl e"
  by (simp_all add: bind_exn_def)

lemma index_of_less: "index_of xs x = Some i \<Longrightarrow> i < length xs"
  by (induction xs arbitrary: i) (auto split: if_splits)

text \<open>The rolling mean at a row takes the 14 volumes that end with the row's own.\<close>

lemma rolling_mean_nth:
  assumes "i < length xs"
  shows "rolling_mean 14 (map Num xs) ! i =
           (if i < 13 then NaN else fl_mean (map Num (take 14 (drop (i - 13) xs))))"
proof -
  have "i + 1 - 14 = i - 13" by simp
  then show ?thesis
    using assms by (auto simp: rolling_mean_def take_map drop_map)
qed

lemma orb_valid_reads:
  assumes "valid (orb_evaluate r)"
  shows "\<exists>atr dt. get r ''ATR'' = Inr atr \<and> get_date r = Inr dt \<and>
           reason (orb_evaluate r) = NoReason"
proof -
  from assms obtain d where b: "orb_body r = Inr d" and d: "orb_evaluate r = d" "valid d"
    by (auto simp: orb_evaluate_def rejection_def split: sum.splits)
  from b d(2) have "(\<exists>atr. get r ''ATR'' = Inr atr) \<and> (\<exists>dt. get_date r = Inr dt) \<and>
      reason d = NoReason"
    by (auto simp: orb_body_def bind_exn_Inr_iff get_time_def rejection_def Let_def
        split: if_splits)
  then show ?thesis using d(1) by auto
qed

lemma evaluate_row_orb:
  assumes "evaluate_row md r = Inr result"
  shows "result = orb_evaluate r"
  using assms by (auto simp: evaluate_row_def bind_exn_Inr_iff split: if_splits)

lemma apply_filters_volume_low:
  assumes "md_recent_df md = Some df" "index_of (df_index df) (row_name r) = Some i"
    and "iloc (df_volume df) i = Inr vol"
    and "iloc (rolling_mean 14 (map Num (df_volume df))) i = Inr avg"
    and "get r ''ATR'' = Inr atr" "get_date r = Inr dt"
    and "isna avg \<or> fl_lt (Num vol) (fl_mul (Num 1.2) avg)"
  shows "apply_filters md r result =
           Inr (result\<lparr>valid := False, reason := VolumeTooLow vol avg\<rparr>)"
  using assms(7) by (simp add: apply_filters_def assms(1-6) bind_exn_simps Let_def)

lemma apply_filters_volume_high:
  assumes "md_recent_df md = Some df" "index_of (df_index df) (row_name r) = Some i"
    and "iloc (df_volume df) i = Inr vol"
    and "iloc (rolling_mean 14 (map Num (df_volume df))) i = Inr avg"
    and "get r ''ATR'' = Inr atr" "get_date r = Inr dt"
    and "\<not> (isna avg \<or> fl_lt (Num vol) (fl_mul (Num 1.2) avg))"
    and "apply_filters md r result = Inr res"
  shows "reason res \<in> {reason result, WeakMomentum, WeakPostCooldownCandle,
                        SameZoneReentry, NoPullback}"
proof -
  let ?M = "is_momentum_confirmed df i (signal result)"
  let ?W = "case last_exit_time (md_state md) of None \<Rightarrow> Inr False
            | Some lt \<Rightarrow> is_post_trade_candle_weak md r dt lt"
  let ?Z = "is_reentry_in_same_zone md (entry_d result) (last_exit_price (md_state md))
              (last_exit_time (md_state md)) atr dt"
  let ?P = "has_price_moved_enough_after_pullback (entry_d result)
              (last_exit_price (md_state md)) (signal result) atr"
  show ?thesis
    using assms(7,8)
    by (cases ?M; cases ?W; cases ?Z; cases ?P)
      (auto simp: apply_filters_def assms(1-6) bind_exn_simps Let_def split: if_splits)
qed

subsection \<open>The chain on the concrete bars\<close>

lemma vol_index:
  "index_of (df_index vol_frame) (row_name orb_row) = Some 14"
  "index_of (df_index flat_frame) (row_name orb_row) = Some 14"
  by (simp_all add: flat_frame_def vol_frame_def vol_stamps_def orb_row_def day_us_def
      dt_time_def)

lemma vol_iloc:
  "iloc (df_volume vol_frame) 14 = Inr 130"
  "iloc (rolling_mean 14 (map Num (df_volume vol_frame))) 14 = Inr (Num (715 / 7))"
  "iloc (df_volume flat_frame) 14 = Inr 100"
  "iloc (rolling_mean 14 (map Num (df_volume flat_frame))) 14 = Inr (Num 100)"
  by (simp_all add: iloc_def rolling_mean_def fl_mean_def flat_frame_def vol_frame_def)

lemma orb_row_decision: "orb_evaluate orb_row = orb_decision"
  by (simp add: orb_evaluate_def orb_body_def orb_row_def bind_exn_def get_def get_time_def
      get_date_def time_of_def day_us_def dt_time_def isna_def orb_decision_def Let_def)

lemma vol_momentum: "is_momentum_confirmed vol_frame 14 (Some ''BUY'') = Inr True"
  by (simp add: is_momentum_confirmed_def vol_frame_def upper_def Let_def list_all_iff)

lemma orb_row_reads:
  "get orb_row ''ATR'' = Inr (Num 10)"
  "get_date orb_row = Inr (Stamp (20000 * day_us + dt_time 10 25))"
  by (simp_all add: get_def get_date_def orb_row_def)

lemma orb_decision_fields:
  "signal orb_decision = Some ''BUY''" "entry_d orb_decision = Some (Num 105)"
  "valid orb_decision" "reason orb_decision = NoReason"
  by (simp_all add: orb_decision_def)

lemma evaluate_orb:
  "evaluate_row md_orb orb_row = Inr orb_decision"
  "evaluate_row md_after_exit orb_row = Inr orb_decision"
  "evaluate_row md_flat orb_row = Inr orb_decision"
  by (simp_all add: evaluate_row_def md_flat_def md_after_exit_def md_orb_def bind_exn_def
      orb_row_decision)

lemma decide_orb: "decide_trade_from_row md_orb orb_row = Inr orb_decision"
proof -
  have s: "md_recent_df md_orb = Some vol_frame" "last_exit_time (md_state md_orb) = None"
    "last_exit_price (md_state md_orb) = None"
    by (simp_all add: md_orb_def TradeState_init_def)
  have f: "apply_filters md_orb orb_row orb_decision = Inr orb_decision"
    by (simp add: apply_filters_def s vol_index vol_iloc vol_momentum orb_row_reads
        orb_decision_fields bind_exn_def isna_def is_reentry_in_same_zone_def truthy_def)
  show ?thesis
    by (simp add: decide_trade_from_row_def evaluate_orb bind_exn_def orb_decision_fields f)
qed

lemma pullback_at_half_atr:
  "has_price_moved_enough_after_pullback (Some (Num 105)) (Some 100) (Some ''BUY'') (Num 10)
     = Inr False"
  "has_price_moved_enough_after_pullback (Some (Num 95)) (Some 100) (Some ''SELL'') (Num 10)
     = Inr False"
  by (simp_all add: has_price_moved_enough_after_pullback_def)

lemma decide_after_exit:
  "decide_trade_from_row md_after_exit orb_row =
     Inr (orb_decision\<lparr>valid := False, reason := NoPullback\<rparr>)"
proof -
  have s: "md_recent_df md_after_exit = Some vol_frame"
    "last_exit_time (md_state md_after_exit) = Some (20000 * day_us + dt_time 9 15)"
    "last_exit_price (md_state md_after_exit) = Some 100"
    "md_cooldown_minutes md_after_exit = 5"
    by (simp_all add: md_after_exit_def md_orb_def TradeState_init_def)
  have w: "is_post_trade_candle_weak md_after_exit orb_row
             (Stamp (20000 * day_us + dt_time 10 25)) (20000 * day_us + dt_time 9 15)
           = Inr False"
    by (simp add: is_post_trade_candle_weak_def orb_row_def get_def bind_exn_def
        seconds_since_def s dt_time_def)
  have z: "is_reentry_in_same_zone md_after_exit (Some (Num 105)) (Some 100)
             (Some (20000 * day_us + dt_time 9 15)) (Num 10)
             (Stamp (20000 * day_us + dt_time 10 25))
           = Inr False"
    by (simp add: is_reentry_in_same_zone_def truthy_def seconds_since_def s dt_time_def)
  have f: "apply_filters md_after_exit orb_row orb_decision =
           Inr (orb_decision\<lparr>valid := False, reason := NoPullback\<rparr>)"
    by (simp add: apply_filters_def s vol_index vol_iloc vol_momentum orb_row_reads
        orb_decision_fields bind_exn_def isna_def w z pullback_at_half_atr truthy_def)
  show ?thesis
    by (simp add: decide_trade_from_row_def evaluate_orb bind_exn_def orb_decision_fields f)
qed

lemma wf_vol_frames: "wf_frame vol_frame" "wf_frame flat_frame"
  by (simp_all add: wf_frame_def flat_frame_def vol_frame_def vol_stamps_def)

subsection \<open>The volume guard\<close>

text \<open>
  Claim C5 as stated fails. The bar of 10:25 in \<open>vol_frame\<close> has a volume of 130. The
  fourteen bars strictly before it average 5650/7, about 807, so 130 does not exceed 1.2
  times the trailing average of the claim. The code averages the fourteen bars that end
  with the bar itself, 715/7, about 102; 130 is above 1.2 times that, the volume guard lets
  the decision through, and it comes back valid.
\<close>

theorem volume_guard_preceding_counterexample:
  "index_of (df_index vol_frame) (row_name orb_row) = Some 14 \<and>
   iloc (df_volume vol_frame) 14 = Inr 130 \<and>
   preceding_avg_spec (df_volume vol_frame) 14 = Num (5650 / 7) \<and>
   \<not> fl_lt (fl_mul (Num 1.2) (Num (5650 / 7))) (Num 130) \<and>
   evaluate_row md_orb orb_row = Inr orb_decision \<and> valid orb_decision \<and>
   decide_trade_from_row md_orb orb_row = Inr orb_decision"
proof -
  have "preceding_avg_spec (df_volume vol_frame) 14 = Num (5650 / 7)"
    by (simp add: preceding_avg_spec_def vol_frame_def fl_mean_def)
  then show ?thesis
    by (simp add: vol_index vol_iloc evaluate_orb orb_decision_fields decide_orb)
qed

text \<open>
  Claim C5, amended. Take a valid decision of the evaluator step and the row's position
  \<open>i\<close> in the frame kept by \<open>prepare_indicators\<close>. The average used is the rolling mean of
  the 14 volumes that end with the row's own, null for the first 13 rows. If that average
  is null or the row's volume is below 1.2 times it, \<open>decide_trade_from_row\<close> returns the
  decision made invalid with the volume reason, whatever the later guards would say. If
  the row's volume is above 1.2 times the average, the returned decision never carries the
  volume reason.
\<close>

theorem volume_guard_rolling_average:
  assumes "evaluate_row md r = Inr result" "valid result"
    and "md_recent_df md = Some df" "wf_frame df"
    and "index_of (df_index df) (row_name r) = Some i"
    and "vol = df_volume df ! i"
    and "avg = rolling_mean 14 (map Num (df_volume df)) ! i"
  shows "avg = (if i < 13 then NaN
                else fl_mean (map Num (take 14 (drop (i - 13) (df_volume df))))) \<and>
         (isna avg \<or> fl_lt (Num vol) (fl_mul (Num 1.2) avg) \<longrightarrow>
            decide_trade_from_row md r =
              Inr (result\<lparr>valid := False, reason := VolumeTooLow vol avg\<rparr>)) \<and>
         (fl_lt (fl_mul (Num 1.2) avg) (Num vol) \<longrightarrow>
            (\<forall>res. decide_trade_from_row md r = Inr res \<longrightarrow>
               (\<forall>v a. reason res \<noteq> VolumeTooLow v a)))"
proof -
  have i: "i < length (df_volume df)"
    using index_of_less[OF assms(5)] assms(4) by (simp add: wf_frame_def)
  have il: "iloc (df_volume df) i = Inr vol"
    "iloc (rolling_mean 14 (map Num (df_volume df))) i = Inr avg"
    using i assms(6,7) by (simp_all add: iloc_def length_rolling_mean)
  have r: "result = orb_evaluate r"
    by (rule evaluate_row_orb[OF assms(1)])
  from orb_valid_reads[of r] assms(2) r obtain atr dt where
    rd: "get r ''ATR'' = Inr atr" "get_date r = Inr dt" and nr: "reason result = NoReason"
    by auto
  have d: "decide_trade_from_row md r = apply_filters md r result"
    using assms(1,2) by (simp add: decide_trade_from_row_def bind_exn_simps)
  have a: "avg = (if i < 13 then NaN
                else fl_mean (map Num (take 14 (drop (i - 13) (df_volume df)))))"
    using rolling_mean_nth[OF i] assms(7) by simp
  have low: "decide_trade_from_row md r =
              Inr (result\<lparr>valid := False, reason := VolumeTooLow vol avg\<rparr>)"
    if "isna avg \<or> fl_lt (Num vol) (fl_mul (Num 1.2) avg)"
    using apply_filters_volume_low[OF assms(3) assms(5) il rd that] d by simp
  have high: "reason res \<noteq> VolumeTooLow v a"
    if h: "fl_lt (fl_mul (Num 1.2) avg) (Num vol)" and e: "decide_trade_from_row md r = Inr res"
    for res v a
  proof -
    from h have "\<not> (isna avg \<or> fl_lt (Num vol) (fl_mul (Num 1.2) avg))"
      by (cases avg) (auto simp: isna_def)
    moreover from e d have "apply_filters md r result = Inr res"
      by simp
    ultimately have "reason res \<in> {reason result, WeakMomentum, WeakPostCooldownCandle,
                        SameZoneReentry, NoPullback}"
      by (rule apply_filters_volume_high[OF assms(3) assms(5) il rd])
    with nr show ?thesis by auto
  qed
  from a low high show ?thesis by blast
qed

theorem volume_guard_rolling_average_witness:
  "evaluate_row md_flat orb_row = Inr orb_decision \<and> valid orb_decision \<and>
   wf_frame flat_frame \<and> df_volume flat_frame ! 14 = 100 \<and>
   rolling_mean 14 (map Num (df_volume flat_frame)) ! 14 = Num 100 \<and>
   decide_trade_from_row md_flat orb_row =
     Inr (orb_decision\<lparr>valid := False, reason := VolumeTooLow 100 (Num 100)\<rparr>) \<and>
   wf_frame vol_frame \<and> df_volume vol_frame ! 14 = 130 \<and>
   rolling_mean 14 (map Num (df_volume vol_frame)) ! 14 = Num (715 / 7) \<and>
   decide_trade_from_row md_orb orb_row = Inr orb_decision \<and>
   reason orb_decision = NoReason"
proof -
  have f: "md_recent_df md_flat = Some flat_frame" "md_recent_df md_orb = Some vol_frame"
    by (simp_all add: md_flat_def md_orb_def)
  have v: "df_volume flat_frame ! 14 = 100" "df_volume vol_frame ! 14 = 130"
    "rolling_mean 14 (map Num (df_volume flat_frame)) ! 14 = Num 100"
    "rolling_mean 14 (map Num (df_volume vol_frame)) ! 14 = Num (715 / 7)"
    using vol_iloc by (simp_all add: iloc_def split: if_splits)
  from volume_guard_rolling_average[OF evaluate_orb(3) orb_decision_fields(3) f(1)
      wf_vol_frames(2) vol_index(2) v(1)[symmetric] v(3)[symmetric]]
    volume_guard_rolling_average[OF evaluate_orb(1) orb_decision_fields(3) f(2)
      wf_vol_frames(1) vol_index(1) v(2)[symmetric] v(4)[symmetric]]
  show ?thesis
    using evaluate_orb orb_decision_fields wf_vol_frames v decide_orb
    by (simp add: isna_def)
qed

subsection \<open>The pullback guard\<close>

text \<open>
  Claim C7, evaluated on the code. After an exit at 100, with an ATR of 10, an entry at 105
  has moved exactly 0.5 \<times> ATR above the exit and an entry at 95 exactly as far below it.
  \<open>has_price_moved_enough_after_pullback\<close> answers no for both, and
  \<open>decide_trade_from_row\<close> makes the BUY decision at 105 invalid for want of a pullback.
\<close>

theorem pullback_boundary_rejected:
  "fl_le (fl_add (Num 100) (fl_mul (Num 0.5) (Num 10))) (Num 105) \<and>
   has_price_moved_enough_after_pullback (Some (Num 105)) (Some 100) (Some ''BUY'') (Num 10)
     = Inr False \<and>
   fl_le (Num 95) (fl_sub (Num 100) (fl_mul (Num 0.5) (Num 10))) \<and>
   has_price_moved_enough_after_pullback (Some (Num 95)) (Some 100) (Some ''SELL'') (Num 10)
     = Inr False \<and>
   last_exit_price (md_state md_after_exit) = Some 100 \<and>
   evaluate_row md_after_exit orb_row = Inr orb_decision \<and>
   signal orb_decision = Some ''BUY'' \<and> entry_d orb_decision = Some (Num 105) \<and>
   decide_trade_from_row md_after_exit orb_row =
     Inr (orb_decision\<lparr>valid := False, reason := NoPullback\<rparr>)"
proof -
  have "last_exit_price (md_state md_after_exit) = Some 100"
    by (simp add: md_after_exit_def md_orb_def TradeState_init_def)
  then show ?thesis
    by (simp add: pullback_at_half_atr evaluate_orb orb_decision_fields decide_after_exit)
qed

end
